theory Spec2Isabelle
  imports Complex_Main
begin

section \<open>Values shared by the server modules\<close>

text \<open>
  A feature vector is the flat array of landmark coordinates that
  \<^verbatim>\<open>extract_hand_landmarks\<close> builds. Python floats are modelled as reals: the code
  only compares them and passes them on.
\<close>

type_synonym features = "real list"

text \<open>The exceptions the modelled code can meet; each \<^verbatim>\<open>except Exception\<close> catches all of them.\<close>

datatype py_exn = ValueError | KeyError | IndexError | OSError | RuntimeError

text \<open>
  The two classifier kinds are external objects. A TensorFlow model is what its
  \<^verbatim>\<open>predict\<close> does on a reshaped feature vector: it raises, or returns the row of class
  scores. A Random Forest model is its \<^verbatim>\<open>predict\<close> (the class label of the single row,
  a class index assigned by \<^verbatim>\<open>list.index\<close> during collection, hence a natural number) and
  its \<^verbatim>\<open>predict_proba\<close>.
\<close>

datatype tf_model = TfModel "features \<Rightarrow> py_exn + real list"

datatype rf_model = RfModel "features \<Rightarrow> py_exn + nat" "features \<Rightarrow> py_exn + real list"

primrec tf_predict :: "tf_model \<Rightarrow> features \<Rightarrow> py_exn + real list" where
  "tf_predict (TfModel p) = p"

primrec rf_predict :: "rf_model \<Rightarrow> features \<Rightarrow> py_exn + nat" where
  "rf_predict (RfModel p q) = p"

primrec rf_predict_proba :: "rf_model \<Rightarrow> features \<Rightarrow> py_exn + real list" where
  "rf_predict_proba (RfModel p q) = q"

text \<open>\<^verbatim>\<open>np.max\<close> and \<^verbatim>\<open>np.argmax\<close> raise on an empty array; argmax is the first position of the maximum.\<close>

fun np_max :: "real list \<Rightarrow> py_exn + real" where
  "np_max [] = Inl ValueError"
| "np_max (x # xs) = Inr (fold max xs x)"

fun np_argmax :: "real list \<Rightarrow> py_exn + nat" where
  "np_argmax [] = Inl ValueError"
| "np_argmax (x # xs) = Inr (length (takeWhile (\<lambda>v. v \<noteq> fold max xs x) (x # xs)))"

text \<open>Sequencing of calls that may raise: the first exception ends the block.\<close>

definition and_then :: "py_exn + 'a \<Rightarrow> ('a \<Rightarrow> py_exn + 'b) \<Rightarrow> py_exn + 'b" where
  "and_then r f = (case r of Inl e \<Rightarrow> Inl e | Inr v \<Rightarrow> f v)"

text \<open>List indexing with a non-negative index: \<^verbatim>\<open>IndexError\<close> past the end.\<close>

definition py_index :: "'a list \<Rightarrow> nat \<Rightarrow> py_exn + 'a" where
  "py_index xs i = (if i < length xs then Inr (xs ! i) else Inl IndexError)"

text \<open>Python truthiness of an optional string: \<^verbatim>\<open>None\<close> and the empty string are false.\<close>

fun truthy :: "string option \<Rightarrow> bool" where
  "truthy None = False"
| "truthy (Some s) = (s \<noteq> [])"

definition is_not_None :: "'a option \<Rightarrow> bool" where
  "is_not_None x = (case x of None \<Rightarrow> False | Some v \<Rightarrow> True)"

text \<open>
  The metadata record that \<^verbatim>\<open>run_training\<close> writes as \<^verbatim>\<open>training_metadata.json\<close>. A
  loaded file is any JSON object, so the key \<^verbatim>\<open>gestures\<close> may be absent.
\<close>

record metadata =
  md_lesson_id :: "string option"
  md_created_at :: real
  md_accuracy :: real
  md_samples_count :: nat
  md_gestures :: "string list option"
  md_num_classes :: nat
  md_admin_session :: "string option"

text \<open>
  The file system as the code reads and writes it: a directory path maps to the three
  artifact files it may hold; an absent path is \<open>None\<close>. A file is missing, present but
  failing to load, or present with its content.
\<close>

datatype 'a entry = Missing | Unreadable | Holds 'a

record artifact =
  meta_json :: "metadata entry"
  tf_dir :: "tf_model entry"
  rf_pkl :: "rf_model entry"

type_synonym disk = "string \<Rightarrow> artifact option"

text \<open>\<^verbatim>\<open>os.path.join\<close> of two components on POSIX.\<close>

definition os_path_join :: "string \<Rightarrow> string \<Rightarrow> string" where
  "os_path_join a b =
     (if b \<noteq> [] \<and> hd b = CHR ''/'' then b
      else if a = [] \<or> last a = CHR ''/'' then a @ b
      else a @ ''/'' @ b)"

section \<open>level_model_manager.py\<close>

definition PRACTICE_LEVEL_GESTURES :: "(string \<times> string list) list" where
  "PRACTICE_LEVEL_GESTURES =
     [(''lesson_1'', [''Hello'', ''Thank You'', ''Yes'', ''No'']),
      (''lesson_2'', [''Happy'', ''Sad'', ''Angry'', ''Love'']),
      (''lesson_3'', [''Eat'', ''Drink'', ''Sleep'', ''Go'']),
      (''lesson_4'', [''Book'', ''Phone'', ''Car'', ''Home'']),
      (''lesson_5'', [''What'', ''Where'', ''When'', ''Who''])]"

text \<open>\<^verbatim>\<open>dict.get(key, [])\<close>.\<close>

definition dict_get_list :: "('k \<times> 'v list) list \<Rightarrow> 'k \<Rightarrow> 'v list" where
  "dict_get_list d k = (case map_of d k of None \<Rightarrow> [] | Some v \<Rightarrow> v)"

text \<open>The fields of \<^verbatim>\<open>IsolatedLevelModelManager\<close>.\<close>

record level_manager =
  level_models_dir :: string
  current_level_labels :: "string list"
  current_level_id :: "string option"
  is_practice_mode :: bool
  current_level_model :: "tf_model option"
  current_level_rf_model :: "rf_model option"
  current_level_metadata :: "metadata option"

text \<open>\<^verbatim>\<open>__init__\<close>\<close>

definition level_manager_init :: level_manager where
  "level_manager_init =
     \<lparr>level_models_dir = ''level_models'', current_level_labels = [],
      current_level_id = None, is_practice_mode = False, current_level_model = None,
      current_level_rf_model = None, current_level_metadata = None\<rparr>"

text \<open>
  \<^verbatim>\<open>_load_level_model\<close>. Each field is assigned only where its file exists; a metadata
  file that fails to parse raises out of the \<^verbatim>\<open>with\<close> block into the outer handler,
  while a model file that fails to load resets its own field to \<^verbatim>\<open>None\<close>.
\<close>

definition load_level_model :: "disk \<Rightarrow> level_manager \<Rightarrow> string \<Rightarrow> bool \<times> level_manager" where
  "load_level_model d s lesson_id =
     (let lesson_model_path = os_path_join (level_models_dir s) lesson_id in
      case d lesson_model_path of
        None \<Rightarrow> (False, s)
      | Some a \<Rightarrow>
          (case meta_json a of
             Unreadable \<Rightarrow> (False, s)
           | m \<Rightarrow>
               let s1 = (case m of Holds md \<Rightarrow> s\<lparr>current_level_metadata := Some md\<rparr> | _ \<Rightarrow> s);
                   s2 = (case tf_dir a of
                           Missing \<Rightarrow> s1
                         | Unreadable \<Rightarrow> s1\<lparr>current_level_model := None\<rparr>
                         | Holds t \<Rightarrow> s1\<lparr>current_level_model := Some t\<rparr>);
                   s3 = (case rf_pkl a of
                           Missing \<Rightarrow> s2
                         | Unreadable \<Rightarrow> s2\<lparr>current_level_rf_model := None\<rparr>
                         | Holds r \<Rightarrow> s2\<lparr>current_level_rf_model := Some r\<rparr>)
               in (is_not_None (current_level_model s3) \<or> is_not_None (current_level_rf_model s3), s3)))"

text \<open>\<^verbatim>\<open>enter_practice_mode\<close>: the lesson id and label list are assigned before the load is tried.\<close>

definition enter_practice_mode :: "disk \<Rightarrow> level_manager \<Rightarrow> string \<Rightarrow> bool \<times> level_manager" where
  "enter_practice_mode d s lesson_id =
     (let s1 = s\<lparr>current_level_id := Some lesson_id,
                 current_level_labels := dict_get_list PRACTICE_LEVEL_GESTURES lesson_id\<rparr>;
          r = load_level_model d s1 lesson_id
      in if fst r then (True, (snd r)\<lparr>is_practice_mode := True\<rparr>) else (False, snd r))"

text \<open>\<^verbatim>\<open>exit_practice_mode\<close>\<close>

definition exit_practice_mode :: "level_manager \<Rightarrow> level_manager" where
  "exit_practice_mode s =
     s\<lparr>is_practice_mode := False, current_level_labels := [], current_level_id := None,
       current_level_model := None, current_level_rf_model := None,
       current_level_metadata := None\<rparr>"

text \<open>
  The label list a prediction is resolved against: the metadata's \<^verbatim>\<open>gestures\<close> when the
  metadata is loaded and has that key, else the lesson definition.
\<close>

definition gesture_labels :: "level_manager \<Rightarrow> string list" where
  "gesture_labels s =
     (case current_level_metadata s of
        None \<Rightarrow> current_level_labels s
      | Some md \<Rightarrow> (case md_gestures md of None \<Rightarrow> current_level_labels s | Some g \<Rightarrow> g))"

text \<open>
  The \<^verbatim>\<open>try\<close> block of \<^verbatim>\<open>predict_with_level_model\<close>: \<open>Inl\<close> is an exception raised inside
  it. An index that fails the length test falls through to the final
  \<^verbatim>\<open>return "No model", 0.0\<close>; the Random Forest branch is an \<^verbatim>\<open>elif\<close>, so it is not tried
  when a TensorFlow model is loaded.
\<close>

definition level_predict_try :: "level_manager \<Rightarrow> features \<Rightarrow> py_exn + string \<times> real" where
  "level_predict_try s feats =
     (case current_level_model s of
        Some m \<Rightarrow>
          and_then (tf_predict m feats) (\<lambda>predictions.
          and_then (np_max predictions) (\<lambda>confidence.
          and_then (np_argmax predictions) (\<lambda>predicted_class.
            if predicted_class < length (gesture_labels s)
            then and_then (py_index (gesture_labels s) predicted_class) (\<lambda>gesture.
                   Inr (gesture, confidence))
            else Inr (''No model'', 0))))
      | None \<Rightarrow>
          (case current_level_rf_model s of
             Some rf \<Rightarrow>
               and_then (rf_predict rf feats) (\<lambda>prediction.
               and_then (rf_predict_proba rf feats) (\<lambda>proba.
               and_then (np_max proba) (\<lambda>confidence.
                 if prediction < length (gesture_labels s)
                 then and_then (py_index (gesture_labels s) prediction) (\<lambda>gesture.
                        Inr (gesture, confidence))
                 else Inr (''No model'', 0))))
           | None \<Rightarrow> Inr (''No model'', 0)))"

definition predict_with_level_model :: "level_manager \<Rightarrow> features \<Rightarrow> string \<times> real" where
  "predict_with_level_model s feats =
     (if \<not> is_practice_mode s then (''No practice mode'', 0)
      else case level_predict_try s feats of
             Inl e \<Rightarrow> (''Error'', 0)
           | Inr r \<Rightarrow> r)"

text \<open>The manager holds no lesson context: every context field is cleared and the flag is down.\<close>

definition lesson_inactive :: "level_manager \<Rightarrow> bool" where
  "lesson_inactive s =
     (\<not> is_practice_mode s \<and> current_level_labels s = [] \<and> current_level_id s = None \<and>
      current_level_model s = None \<and> current_level_rf_model s = None \<and>
      current_level_metadata s = None)"

subsection \<open>Concrete models, artifacts and manager states\<close>

text \<open>A neural model that answers every input with one row of scores, and a forest that answers with one class.\<close>

definition const_tf :: "real list \<Rightarrow> tf_model" where
  "const_tf scores = TfModel (\<lambda>feats. Inr scores)"

definition const_rf :: "nat \<Rightarrow> real list \<Rightarrow> rf_model" where
  "const_rf c proba = RfModel (\<lambda>feats. Inr c) (\<lambda>feats. Inr proba)"

definition lesson_metadata :: "string \<Rightarrow> metadata" where
  "lesson_metadata lesson_id =
     \<lparr>md_lesson_id = Some lesson_id, md_created_at = 0, md_accuracy = 1, md_samples_count = 40,
      md_gestures = Some (dict_get_list PRACTICE_LEVEL_GESTURES lesson_id),
      md_num_classes = 4, md_admin_session = None\<rparr>"

text \<open>
  A lesson directory that \<^verbatim>\<open>os.makedirs\<close> created and into which no model file was
  written (a training run that failed before its first write leaves this).
\<close>

definition empty_lesson_disk :: disk where
  "empty_lesson_disk p =
     (if p = ''level_models/lesson_1''
      then Some \<lparr>meta_json = Missing, tf_dir = Missing, rf_pkl = Missing\<rparr>
      else None)"

text \<open>
  Lesson 1 trained in full but for its forest; lesson 2 with the forest only (a training
  run that wrote \<^verbatim>\<open>asl_model.pkl\<close> and then failed while fitting the network).
\<close>

definition two_lessons_disk :: disk where
  "two_lessons_disk p =
     (if p = ''level_models/lesson_1''
      then Some \<lparr>meta_json = Holds (lesson_metadata ''lesson_1''),
                 tf_dir = Holds (const_tf [0.1, 0.7, 0.1, 0.1]), rf_pkl = Missing\<rparr>
      else if p = ''level_models/lesson_2''
      then Some \<lparr>meta_json = Missing, tf_dir = Missing,
                 rf_pkl = Holds (const_rf 2 [0, 0, 1, 0])\<rparr>
      else None)"

text \<open>Two active managers whose model has more classes than the lesson has labels.\<close>

definition mismatch_tf_manager :: level_manager where
  "mismatch_tf_manager =
     \<lparr>level_models_dir = ''level_models'', current_level_labels = [''Hello'', ''Thank You''],
      current_level_id = Some ''lesson_1'', is_practice_mode = True,
      current_level_model = Some (const_tf [0.1, 0.2, 0.7]),
      current_level_rf_model = None, current_level_metadata = None\<rparr>"

definition mismatch_rf_manager :: level_manager where
  "mismatch_rf_manager =
     \<lparr>level_models_dir = ''level_models'', current_level_labels = [''Hello'', ''Thank You''],
      current_level_id = Some ''lesson_1'', is_practice_mode = True,
      current_level_model = None,
      current_level_rf_model = Some (const_rf 5 [0.5, 0.5]), current_level_metadata = None\<rparr>"

section \<open>main.py: the default model\<close>

definition ORIGINAL_LABELS :: "string list" where
  "ORIGINAL_LABELS = [''Yes'', ''No'', ''I Love You'', ''Hello'', ''Thank You'']"

text \<open>The fields of \<^verbatim>\<open>ASLModel\<close>. Only a TensorFlow model is ever held.\<close>

record asl_model =
  model :: "tf_model option"
  model_loaded :: bool

text \<open>
  \<^verbatim>\<open>load_model\<close> reads \<^verbatim>\<open>models/asl_model_tf\<close> beside the server file (the server runs in
  its own directory, so this is the directory \<^verbatim>\<open>models\<close> that training writes). A
  missing path leaves both fields as they are; a failing load lowers the flag only.
\<close>

definition load_model :: "disk \<Rightarrow> asl_model \<Rightarrow> asl_model" where
  "load_model d a =
     (case d ''models'' of
        None \<Rightarrow> a
      | Some art \<Rightarrow>
          (case tf_dir art of
             Missing \<Rightarrow> a
           | Unreadable \<Rightarrow> a\<lparr>model_loaded := False\<rparr>
           | Holds t \<Rightarrow> a\<lparr>model := Some t, model_loaded := True\<rparr>))"

text \<open>\<^verbatim>\<open>__init__\<close>\<close>

definition asl_model_init :: "disk \<Rightarrow> asl_model" where
  "asl_model_init d = load_model d \<lparr>model = None, model_loaded = False\<rparr>"

text \<open>\<^verbatim>\<open>sum\<close> over a list of booleans counts the true ones.\<close>

definition py_sum_bools :: "bool list \<Rightarrow> nat" where
  "py_sum_bools bs = length (filter (\<lambda>b. b) bs)"

text \<open>
  \<^verbatim>\<open>rule_based_prediction\<close>, in its three steps. \<^verbatim>\<open>features.reshape(21, 3)\<close> raises
  unless the vector has 63 entries; row \<open>i\<close> of the reshaped array is entries
  \<open>3 i\<close>, \<open>3 i + 1\<close>, \<open>3 i + 2\<close>. The finger states compare the second coordinate of a
  tip with that of a lower joint; the rules are tried in the order of the source.
\<close>

definition landmarks_fingers_up :: "features \<Rightarrow> bool list" where
  "landmarks_fingers_up feats =
     (let landmarks = (\<lambda>i. [feats ! (3 * i), feats ! (3 * i + 1), feats ! (3 * i + 2)]);
          thumb_tip = landmarks 4;
          index_tip = landmarks 8;
          middle_tip = landmarks 12;
          ring_tip = landmarks 16;
          pinky_tip = landmarks 20
      in [thumb_tip ! 1 < landmarks 3 ! 1,
          index_tip ! 1 < landmarks 6 ! 1,
          middle_tip ! 1 < landmarks 10 ! 1,
          ring_tip ! 1 < landmarks 14 ! 1,
          pinky_tip ! 1 < landmarks 18 ! 1])"

definition finger_rules :: "bool list \<Rightarrow> string \<times> real" where
  "finger_rules fingers_up =
     (let fingers_up_count = py_sum_bools fingers_up
      in if fingers_up_count = 5 then (''Hello'', 0.8)
         else if fingers_up_count = 2 \<and> fingers_up ! 1 \<and> fingers_up ! 4 then (''I Love You'', 0.8)
         else if fingers_up_count = 1 \<and> fingers_up ! 0 then (''Yes'', 0.7)
         else if fingers_up_count = 2 \<and> fingers_up ! 1 \<and> fingers_up ! 2 then (''No'', 0.7)
         else if fingers_up_count = 0 then (''Thank You'', 0.6)
         else (''Unknown'', 0.3))"

definition rule_based_prediction :: "features \<Rightarrow> py_exn + string \<times> real" where
  "rule_based_prediction feats =
     (if length feats \<noteq> 63 then Inl ValueError
      else Inr (finger_rules (landmarks_fingers_up feats)))"

text \<open>The \<^verbatim>\<open>try\<close> block of \<^verbatim>\<open>predict\<close>.\<close>

definition model_predict_try :: "tf_model \<Rightarrow> features \<Rightarrow> py_exn + string \<times> real" where
  "model_predict_try m feats =
     and_then (tf_predict m feats) (\<lambda>predictions.
     and_then (np_max predictions) (\<lambda>confidence.
     and_then (np_argmax predictions) (\<lambda>predicted_class.
       Inr (if predicted_class < length ORIGINAL_LABELS
            then ORIGINAL_LABELS ! predicted_class else ''Unknown'', confidence))))"

text \<open>
  \<^verbatim>\<open>predict\<close>: the network when the flag is up and a model is held, the rules when
  the network raises or is not there. The fallback is called outside any handler, so
  what it raises leaves \<^verbatim>\<open>predict\<close>.
\<close>

definition predict :: "asl_model \<Rightarrow> features \<Rightarrow> py_exn + string \<times> real" where
  "predict a feats =
     (case (model_loaded a, model a) of
        (True, Some m) \<Rightarrow>
          (case model_predict_try m feats of
             Inl e \<Rightarrow> rule_based_prediction feats
           | Inr r \<Rightarrow> Inr r)
      | _ \<Rightarrow> rule_based_prediction feats)"

subsection \<open>Concrete default artifacts, models and feature vectors\<close>

text \<open>
  A default artifact with the forest only: what a regular training run leaves when it
  has written \<^verbatim>\<open>models/asl_model.pkl\<close> and then fails while fitting the network.
\<close>

definition forest_only_disk :: disk where
  "forest_only_disk p =
     (if p = ''models''
      then Some \<lparr>meta_json = Missing, tf_dir = Missing,
                 rf_pkl = Holds (const_rf 1 [0.1, 0.9, 0, 0, 0])\<rparr>
      else None)"

definition flat_hand :: features where
  "flat_hand = replicate 63 0"

definition loaded_asl :: asl_model where
  "loaded_asl = \<lparr>model = Some (const_tf [0.1, 0.9, 0, 0, 0]), model_loaded = True\<rparr>"

definition raising_asl :: asl_model where
  "raising_asl = \<lparr>model = Some (TfModel (\<lambda>feats. Inl RuntimeError)), model_loaded = True\<rparr>"

section \<open>main.py: the training collector\<close>

definition LESSON_GESTURES :: "(string \<times> string list) list" where
  "LESSON_GESTURES =
     [(''lesson_1'', [''Hello'', ''Thank You'', ''Yes'', ''No'']),
      (''lesson_2'', [''Happy'', ''Sad'', ''Angry'', ''Love'']),
      (''lesson_3'', [''Eat'', ''Drink'', ''Sleep'', ''Go'']),
      (''lesson_4'', [''Book'', ''Phone'', ''Car'', ''Home'']),
      (''lesson_5'', [''What'', ''Where'', ''When'', ''Who''])]"

text \<open>An entry of \<^verbatim>\<open>admin_level_sessions\<close>.\<close>

record admin_session =
  as_lesson_id :: string
  as_started_at :: real
  as_is_admin :: bool
  as_gestures :: "string list"

text \<open>The fields of \<^verbatim>\<open>EnhancedTrainingCollector\<close>; the dictionaries are maps.\<close>

record collector =
  current_session :: "string option"
  training_features :: "string \<Rightarrow> features list option"
  training_labels :: "string \<Rightarrow> nat list option"
  admin_level_sessions :: "string \<Rightarrow> admin_session option"
  current_lesson_gestures :: "string list"
  current_lesson_id :: "string option"

text \<open>\<^verbatim>\<open>__init__\<close>\<close>

definition collector_init :: collector where
  "collector_init =
     \<lparr>current_session = None, training_features = Map.empty, training_labels = Map.empty,
      admin_level_sessions = Map.empty, current_lesson_gestures = [],
      current_lesson_id = None\<rparr>"

text \<open>
  The lesson a call is made for: \<^verbatim>\<open>is_admin_level and lesson_id\<close> selects the lesson
  branch, every other call the regular branch.
\<close>

definition admin_lesson :: "bool \<Rightarrow> string option \<Rightarrow> string option" where
  "admin_lesson is_admin_level lesson_id =
     (if is_admin_level \<and> truthy lesson_id then lesson_id else None)"

text \<open>One turn of the loop that creates the two empty buckets of a gesture.\<close>

definition create_bucket :: "string \<Rightarrow> collector \<Rightarrow> collector" where
  "create_bucket gesture c =
     c\<lparr>training_features := (training_features c)(gesture \<mapsto> []),
       training_labels := (training_labels c)(gesture \<mapsto> [])\<rparr>"

text \<open>\<^verbatim>\<open>start_training_session\<close>; \<open>now\<close> is the reading of \<^verbatim>\<open>time.time()\<close>.\<close>

definition start_training_session ::
  "real \<Rightarrow> collector \<Rightarrow> string \<Rightarrow> bool \<Rightarrow> string option \<Rightarrow> bool \<times> collector" where
  "start_training_session now c session_id is_admin_level lesson_id =
     (let c1 = c\<lparr>current_session := Some session_id, training_features := Map.empty,
                 training_labels := Map.empty\<rparr>;
          c2 = (case admin_lesson is_admin_level lesson_id of
                  Some l \<Rightarrow> c1\<lparr>current_lesson_id := Some l,
                               current_lesson_gestures := dict_get_list LESSON_GESTURES l\<rparr>
                | None \<Rightarrow> c1\<lparr>current_lesson_id := None,
                             current_lesson_gestures := ORIGINAL_LABELS\<rparr>);
          c3 = fold create_bucket (current_lesson_gestures c2) c2;
          c4 = (case admin_lesson is_admin_level lesson_id of
                  Some l \<Rightarrow>
                    c3\<lparr>admin_level_sessions := (admin_level_sessions c3)(session_id \<mapsto>
                         \<lparr>as_lesson_id = l, as_started_at = now, as_is_admin = True,
                          as_gestures = current_lesson_gestures c3\<rparr>)\<rparr>
                | None \<Rightarrow> c3)
      in (True, c4))"

text \<open>
  \<^verbatim>\<open>str.strip()\<close>: a string is a list of code points below 256, and the white space
  among them is what \<^verbatim>\<open>str.isspace\<close> accepts there.
\<close>

definition py_isspace :: "char \<Rightarrow> bool" where
  "py_isspace ch = ((of_char ch :: nat) \<in> set [9, 10, 11, 12, 13, 28, 29, 30, 31, 32, 133, 160])"

definition py_strip :: "string \<Rightarrow> string" where
  "py_strip s = rev (dropWhile py_isspace (rev (dropWhile py_isspace s)))"

text \<open>The payload of a data URL: \<^verbatim>\<open>image_data.split(",")[1]\<close> when there is a comma.\<close>

definition image_payload :: "string \<Rightarrow> string" where
  "image_payload image_data =
     (if CHR '','' \<in> set image_data
      then takeWhile (\<lambda>ch. ch \<noteq> CHR '','') (tl (dropWhile (\<lambda>ch. ch \<noteq> CHR '','') image_data))
      else image_data)"

text \<open>\<^verbatim>\<open>list.index\<close> of an element that is in the list.\<close>

definition list_index :: "'a list \<Rightarrow> 'a \<Rightarrow> nat" where
  "list_index xs x = length (takeWhile (\<lambda>y. y \<noteq> x) xs)"

text \<open>
  The external vision calls on a frame: \<^verbatim>\<open>base64.b64decode\<close>, \<^verbatim>\<open>cv2.imdecode\<close> on the
  buffer (an image, or \<^verbatim>\<open>None\<close>), and \<^verbatim>\<open>extract_hand_landmarks\<close>, which catches its own
  errors and returns the features (or \<^verbatim>\<open>None\<close>) with the detection flag.
\<close>

record ('bytes, 'img) vision =
  b64decode :: "string \<Rightarrow> py_exn + 'bytes"
  imdecode :: "'bytes \<Rightarrow> py_exn + 'img option"
  extract_hand_landmarks :: "'img \<Rightarrow> features option \<times> bool"

text \<open>
  The list a gesture name is validated against:
  \<^verbatim>\<open>self.current_lesson_gestures if self.current_lesson_gestures else ORIGINAL_LABELS\<close>.
\<close>

definition session_valid_gestures :: "collector \<Rightarrow> string list" where
  "session_valid_gestures c =
     (if current_lesson_gestures c \<noteq> [] then current_lesson_gestures c else ORIGINAL_LABELS)"

text \<open>
  The \<^verbatim>\<open>try\<close> block of \<^verbatim>\<open>process_training_frame\<close>, on the stripped gesture name. The
  result is an exception raised in the block (\<open>Inl\<close>), a value returned from inside it
  (\<open>Inr (Some n)\<close>), or the end of the block reached (\<open>Inr None\<close>). The two appends are
  two dictionary lookups, each raising \<^verbatim>\<open>KeyError\<close> on a missing bucket.
\<close>

definition process_frame_try ::
  "('bytes, 'img) vision \<Rightarrow> collector \<Rightarrow> string \<Rightarrow> string \<Rightarrow> (py_exn + nat option) \<times> collector" where
  "process_frame_try env c gesture_name image_data =
     (let valid_gestures = session_valid_gestures c
      in if gesture_name \<notin> set valid_gestures then (Inr (Some 0), c)
         else
           case b64decode env (image_payload image_data) of
             Inl e \<Rightarrow> (Inl e, c)
           | Inr img_bytes \<Rightarrow>
               (case imdecode env img_bytes of
                  Inl e \<Rightarrow> (Inl e, c)
                | Inr None \<Rightarrow> (Inr None, c)
                | Inr (Some img) \<Rightarrow>
                    (case extract_hand_landmarks env img of
                       (Some feats, True) \<Rightarrow>
                         let gesture_idx = list_index valid_gestures gesture_name in
                         (case training_features c gesture_name of
                            None \<Rightarrow> (Inl KeyError, c)
                          | Some fs \<Rightarrow>
                              let c1 = c\<lparr>training_features :=
                                          (training_features c)(gesture_name \<mapsto> fs @ [feats])\<rparr>
                              in (case training_labels c1 gesture_name of
                                    None \<Rightarrow> (Inl KeyError, c1)
                                  | Some ls \<Rightarrow>
                                      (Inr (Some (length (fs @ [feats]))),
                                       c1\<lparr>training_labels :=
                                            (training_labels c1)(gesture_name \<mapsto> ls @ [gesture_idx])\<rparr>)))
                     | _ \<Rightarrow> (Inr None, c))))"

text \<open>The sample count the function falls back to: \<^verbatim>\<open>len(self.training_features.get(name, []))\<close>.\<close>

definition current_count :: "collector \<Rightarrow> string \<Rightarrow> nat" where
  "current_count c gesture_name =
     length (case training_features c gesture_name of None \<Rightarrow> [] | Some fs \<Rightarrow> fs)"

text \<open>
  \<^verbatim>\<open>process_training_frame\<close>: the returned integer, or an exception that leaves the
  function, with the collector after the call. The handler catches what the block
  raises, and the function then returns the current count of the stripped name.
\<close>

definition process_training_frame ::
  "('bytes, 'img) vision \<Rightarrow> collector \<Rightarrow> string \<Rightarrow> string \<Rightarrow> (py_exn + nat) \<times> collector" where
  "process_training_frame env c gesture_name image_data =
     (if \<not> truthy (current_session c) then (Inr 0, c)
      else
        let r = process_frame_try env c (py_strip gesture_name) image_data in
        case fst r of
          Inr (Some n) \<Rightarrow> (Inr n, snd r)
        | _ \<Rightarrow> (Inr (current_count (snd r) (py_strip gesture_name)), snd r))"

text \<open>Every sample bucket belongs to a gesture of the session's vocabulary.\<close>

definition buckets_in_vocabulary :: "collector \<Rightarrow> bool" where
  "buckets_in_vocabulary c = (dom (training_features c) \<subseteq> set (current_lesson_gestures c))"

subsection \<open>Concrete frames and sessions\<close>

text \<open>
  Vision calls under which every frame decodes and shows a hand, under which the base64
  text is rejected, and under which no hand is found.
\<close>

definition seeing_vision :: "(string, string) vision" where
  "seeing_vision =
     \<lparr>b64decode = (\<lambda>s. Inr s), imdecode = (\<lambda>b. Inr (Some b)),
      extract_hand_landmarks = (\<lambda>i. (Some flat_hand, True))\<rparr>"

definition garbled_vision :: "(string, string) vision" where
  "garbled_vision =
     \<lparr>b64decode = (\<lambda>s. Inl ValueError), imdecode = (\<lambda>b. Inr (Some b)),
      extract_hand_landmarks = (\<lambda>i. (Some flat_hand, True))\<rparr>"

definition blind_vision :: "(string, string) vision" where
  "blind_vision =
     \<lparr>b64decode = (\<lambda>s. Inr s), imdecode = (\<lambda>b. Inr (Some b)),
      extract_hand_landmarks = (\<lambda>i. (None, False))\<rparr>"

text \<open>A regular session just started, and the same session after two detected frames of \<open>Hello\<close>.\<close>

definition regular_session :: collector where
  "regular_session = snd (start_training_session 0 collector_init ''s1'' False None)"

definition two_hello_session :: collector where
  "two_hello_session =
     snd (process_training_frame seeing_vision
       (snd (process_training_frame seeing_vision regular_session ''Hello'' ''frame''))
       ''Hello'' ''frame'')"

section \<open>main.py: the model trainer\<close>

text \<open>
  The external calls of one training run. A file-system call on a path may be refused
  (\<open>fs_denied\<close>: removing and \<^verbatim>\<open>os.makedirs\<close> raise), and a write may succeed, fail
  before the file is touched, or fail after it was opened. \<^verbatim>\<open>train_test_split\<close> takes
  the data and whether to stratify; \<open>forest_fit\<close> is fitting the forest and scoring it
  on the test part, \<open>network_fit\<close> is building the network for the input width and the
  class count, fitting and evaluating it.
\<close>

datatype io_result = Written | NotWritten | Truncated

record data_split =
  X_train :: "features list"
  X_test :: "features list"
  y_train :: "nat list"
  y_test :: "nat list"

record training =
  time_now :: real
  fs_denied :: "string \<Rightarrow> bool"
  fs_write :: "string \<Rightarrow> io_result"
  train_test_split :: "features list \<Rightarrow> nat list \<Rightarrow> bool \<Rightarrow> py_exn + data_split"
  forest_fit :: "data_split \<Rightarrow> py_exn + rf_model \<times> real"
  network_fit :: "nat \<Rightarrow> nat \<Rightarrow> data_split \<Rightarrow> py_exn + tf_model \<times> real"

text \<open>Sequencing of steps that may raise and that change the disk.\<close>

definition then_io ::
  "(py_exn + 'a) \<times> disk \<Rightarrow> ('a \<Rightarrow> disk \<Rightarrow> (py_exn + 'b) \<times> disk) \<Rightarrow> (py_exn + 'b) \<times> disk" where
  "then_io r f = (case r of (Inl e, d) \<Rightarrow> (Inl e, d) | (Inr v, d) \<Rightarrow> f v d)"

definition empty_artifact :: artifact where
  "empty_artifact = \<lparr>meta_json = Missing, tf_dir = Missing, rf_pkl = Missing\<rparr>"

text \<open>\<^verbatim>\<open>os.makedirs(path, exist_ok=True)\<close>\<close>

definition os_makedirs :: "training \<Rightarrow> string \<Rightarrow> disk \<Rightarrow> (py_exn + unit) \<times> disk" where
  "os_makedirs env path d =
     (if fs_denied env path then (Inl OSError, d)
      else (Inr (), case d path of None \<Rightarrow> d(path \<mapsto> empty_artifact) | Some a \<Rightarrow> d))"

text \<open>
  Removing one target as \<^verbatim>\<open>clean_old_models\<close> and \<^verbatim>\<open>cleanup_duplicates\<close> do: only when it
  exists, and a refusal is caught and logged.
\<close>

definition remove_rf :: "training \<Rightarrow> string \<Rightarrow> string \<Rightarrow> disk \<Rightarrow> disk" where
  "remove_rf env dir target d =
     (case d dir of
        None \<Rightarrow> d
      | Some a \<Rightarrow>
          (case rf_pkl a of
             Missing \<Rightarrow> d
           | _ \<Rightarrow> if fs_denied env target then d else d(dir \<mapsto> a\<lparr>rf_pkl := Missing\<rparr>)))"

definition remove_tf :: "training \<Rightarrow> string \<Rightarrow> string \<Rightarrow> disk \<Rightarrow> disk" where
  "remove_tf env dir target d =
     (case d dir of
        None \<Rightarrow> d
      | Some a \<Rightarrow>
          (case tf_dir a of
             Missing \<Rightarrow> d
           | _ \<Rightarrow> if fs_denied env target then d else d(dir \<mapsto> a\<lparr>tf_dir := Missing\<rparr>)))"

text \<open>\<^verbatim>\<open>clean_old_models\<close>; the working directory is the path \<open>''.''\<close>.\<close>

definition clean_old_models :: "training \<Rightarrow> disk \<Rightarrow> (py_exn + unit) \<times> disk" where
  "clean_old_models env d =
     os_makedirs env ''models''
       (remove_rf env ''.'' ''asl_model.pkl''
         (remove_tf env ''.'' ''asl_model_tf''
           (remove_tf env ''models'' ''models/asl_model_tf''
             (remove_rf env ''models'' ''models/asl_model.pkl'' d))))"

text \<open>\<^verbatim>\<open>cleanup_duplicates\<close>\<close>

definition cleanup_duplicates :: "training \<Rightarrow> disk \<Rightarrow> disk" where
  "cleanup_duplicates env d =
     remove_rf env ''.'' ''asl_model.pkl'' (remove_tf env ''.'' ''asl_model_tf'' d)"

text \<open>The three writes into the output directory.\<close>

definition write_rf :: "training \<Rightarrow> string \<Rightarrow> rf_model \<Rightarrow> disk \<Rightarrow> (py_exn + unit) \<times> disk" where
  "write_rf env dir m d =
     (case d dir of
        None \<Rightarrow> (Inl OSError, d)
      | Some a \<Rightarrow>
          (case fs_write env (os_path_join dir ''asl_model.pkl'') of
             Written \<Rightarrow> (Inr (), d(dir \<mapsto> a\<lparr>rf_pkl := Holds m\<rparr>))
           | NotWritten \<Rightarrow> (Inl OSError, d)
           | Truncated \<Rightarrow> (Inl OSError, d(dir \<mapsto> a\<lparr>rf_pkl := Unreadable\<rparr>))))"

definition write_tf :: "training \<Rightarrow> string \<Rightarrow> tf_model \<Rightarrow> disk \<Rightarrow> (py_exn + unit) \<times> disk" where
  "write_tf env dir m d =
     (case d dir of
        None \<Rightarrow> (Inl OSError, d)
      | Some a \<Rightarrow>
          (case fs_write env (os_path_join dir ''asl_model_tf'') of
             Written \<Rightarrow> (Inr (), d(dir \<mapsto> a\<lparr>tf_dir := Holds m\<rparr>))
           | NotWritten \<Rightarrow> (Inl OSError, d)
           | Truncated \<Rightarrow> (Inl OSError, d(dir \<mapsto> a\<lparr>tf_dir := Unreadable\<rparr>))))"

definition write_metadata :: "training \<Rightarrow> string \<Rightarrow> metadata \<Rightarrow> disk \<Rightarrow> (py_exn + unit) \<times> disk" where
  "write_metadata env dir md d =
     (case d dir of
        None \<Rightarrow> (Inl OSError, d)
      | Some a \<Rightarrow>
          (case fs_write env (os_path_join dir ''training_metadata.json'') of
             Written \<Rightarrow> (Inr (), d(dir \<mapsto> a\<lparr>meta_json := Holds md\<rparr>))
           | NotWritten \<Rightarrow> (Inl OSError, d)
           | Truncated \<Rightarrow> (Inl OSError, d(dir \<mapsto> a\<lparr>meta_json := Unreadable\<rparr>))))"

text \<open>The stratified split, and the plain one when the first raises \<^verbatim>\<open>ValueError\<close>.\<close>

definition split_data :: "training \<Rightarrow> features list \<Rightarrow> nat list \<Rightarrow> py_exn + data_split" where
  "split_data env X y =
     (case train_test_split env X y True of
        Inl ValueError \<Rightarrow> train_test_split env X y False
      | r \<Rightarrow> r)"

text \<open>One turn of the loop that gathers the samples of a gesture, and the loop.\<close>

definition collect_gesture ::
  "collector \<Rightarrow> string \<Rightarrow> features list \<times> nat list \<Rightarrow> features list \<times> nat list" where
  "collect_gesture c gesture_name Xy =
     (let feats = (case training_features c gesture_name of None \<Rightarrow> [] | Some fs \<Rightarrow> fs);
          labels = (case training_labels c gesture_name of None \<Rightarrow> [] | Some ls \<Rightarrow> ls)
      in if length feats > 0 then (fst Xy @ feats, snd Xy @ labels) else Xy)"

definition collect_samples :: "collector \<Rightarrow> string list \<Rightarrow> features list \<times> nat list" where
  "collect_samples c gestures = fold (collect_gesture c) gestures ([], [])"

text \<open>The gesture set of a run.\<close>

definition run_gestures :: "bool \<Rightarrow> string option \<Rightarrow> string list" where
  "run_gestures is_admin_level lesson_id =
     (case admin_lesson is_admin_level lesson_id of
        Some l \<Rightarrow> dict_get_list LESSON_GESTURES l
      | None \<Rightarrow> ORIGINAL_LABELS)"

text \<open>
  \<^verbatim>\<open>run_training\<close> after the test for an empty data set, up to the best accuracy: the
  output directory is prepared (for a regular run the old default models are removed
  first), the data are split, the forest is fitted and written, the network is fitted
  and saved, the metadata are written, and a regular run removes stray copies.
\<close>

definition train_steps ::
  "training \<Rightarrow> disk \<Rightarrow> collector \<Rightarrow> bool \<Rightarrow> string option \<Rightarrow> features list \<Rightarrow> nat list \<Rightarrow>
     (py_exn + real) \<times> disk" where
  "train_steps env d c is_admin_level lesson_id X y =
     (let current_gestures = run_gestures is_admin_level lesson_id in
      then_io (case admin_lesson is_admin_level lesson_id of
                 Some l \<Rightarrow>
                   then_io (os_makedirs env (''level_models/'' @ l) d)
                     (\<lambda>u d1. (Inr (''level_models/'' @ l), d1))
               | None \<Rightarrow>
                   then_io (clean_old_models env d) (\<lambda>u d1.
                   then_io (os_makedirs env ''models'' d1)
                     (\<lambda>u d2. (Inr ''models'', d2)))) (\<lambda>output_dir d1.
      then_io (split_data env X y, d1) (\<lambda>sp d2.
      then_io (forest_fit env sp, d2) (\<lambda>rf d3.
      then_io (write_rf env output_dir (fst rf) d3) (\<lambda>u d4.
      then_io (network_fit env (length (hd X)) (length current_gestures) sp, d4) (\<lambda>tf d5.
      then_io (write_tf env output_dir (fst tf) d5) (\<lambda>u d6.
      then_io (write_metadata env output_dir
                 \<lparr>md_lesson_id = (if is_admin_level then lesson_id else Some ''original''),
                  md_created_at = time_now env,
                  md_accuracy = max (snd rf) (snd tf),
                  md_samples_count = length X,
                  md_gestures = Some current_gestures,
                  md_num_classes = length current_gestures,
                  md_admin_session = (if is_admin_level then current_session c else None)\<rparr>
                 d6) (\<lambda>u d7.
        (Inr (max (snd rf) (snd tf)),
         if \<not> is_admin_level then cleanup_duplicates env d7 else d7)))))))))"

text \<open>
  \<^verbatim>\<open>run_training\<close>: the pair (success, best accuracy), the disk and the collector after
  the call. An empty data set fails before anything is touched; an exception anywhere
  in the steps fails with the disk as the steps left it; success clears the buffers.
\<close>

definition run_training ::
  "training \<Rightarrow> disk \<Rightarrow> collector \<Rightarrow> bool \<Rightarrow> string option \<Rightarrow> (bool \<times> real) \<times> disk \<times> collector" where
  "run_training env d c is_admin_level lesson_id =
     (let Xy = collect_samples c (run_gestures is_admin_level lesson_id)
      in if length (fst Xy) = 0 then ((False, 0), d, c)
         else
           case train_steps env d c is_admin_level lesson_id (fst Xy) (snd Xy) of
             (Inl e, d') \<Rightarrow> ((False, 0), d', c)
           | (Inr best_accuracy, d') \<Rightarrow>
               ((True, best_accuracy), d',
                c\<lparr>training_features := Map.empty, training_labels := Map.empty\<rparr>))"

section \<open>main.py: the training endpoints\<close>

text \<open>The process-wide objects the endpoints work on, and an endpoint's reply.\<close>

record server =
  srv_asl_model :: asl_model
  srv_training_collector :: collector

datatype reply = Reply_success real | Reply_samples nat | Reply_error string nat

text \<open>\<^verbatim>\<open>str.startswith\<close>\<close>

definition startswith :: "string \<Rightarrow> string \<Rightarrow> bool" where
  "startswith s p = (take (length p) s = p)"

text \<open>
  \<^verbatim>\<open>add_training_sample\<close>: a sample under another session id than the current one starts
  a regular session for that id first.
\<close>

definition add_training_sample ::
  "('bytes, 'img) vision \<Rightarrow> real \<Rightarrow> collector \<Rightarrow> string option \<Rightarrow> string option \<Rightarrow> string option \<Rightarrow>
     reply \<times> collector" where
  "add_training_sample env now c session_id gesture_name frame_data =
     (case (session_id, gesture_name, frame_data) of
        (Some sid, Some g, Some frame) \<Rightarrow>
          if sid = [] \<or> g = [] \<or> frame = [] then (Reply_error ''Missing required fields'' 400, c)
          else
            let c1 = (if truthy (current_session c) \<and> current_session c \<noteq> Some sid
                      then snd (start_training_session now c sid False None) else c);
                c2 = (if \<not> truthy (current_session c1)
                      then snd (start_training_session now c1 sid False None) else c1);
                r = process_training_frame env c2 g frame
            in (case fst r of
                  Inl e \<Rightarrow> (Reply_error ''Internal Server Error'' 500, snd r)
                | Inr sample_count \<Rightarrow>
                    if sample_count = 0 then (Reply_error ''Failed to process frame'' 500, snd r)
                    else (Reply_samples sample_count, snd r))
      | _ \<Rightarrow> (Reply_error ''Missing required fields'' 400, c))"

text \<open>
  \<^verbatim>\<open>complete_training\<close>: on success the default model is reloaded from the disk, on
  failure its two fields are cleared.
\<close>

definition complete_training ::
  "training \<Rightarrow> disk \<Rightarrow> server \<Rightarrow> string option \<Rightarrow> reply \<times> disk \<times> server" where
  "complete_training env d srv session_id =
     (if \<not> truthy session_id then (Reply_error ''Missing session_id'' 400, d, srv)
      else
        case run_training env d (srv_training_collector srv) False None of
          ((success, accuracy), d', c') \<Rightarrow>
            if success
            then (Reply_success accuracy, d',
                  srv\<lparr>srv_asl_model := load_model d' (srv_asl_model srv),
                      srv_training_collector := c'\<rparr>)
            else (Reply_error ''Training failed'' 500, d',
                  srv\<lparr>srv_asl_model := (srv_asl_model srv)\<lparr>model := None, model_loaded := False\<rparr>,
                      srv_training_collector := c'\<rparr>))"

text \<open>\<^verbatim>\<open>complete_admin_level_training\<close>: the default model is not touched on either outcome.\<close>

definition complete_admin_level_training ::
  "training \<Rightarrow> disk \<Rightarrow> server \<Rightarrow> string option \<Rightarrow> string option \<Rightarrow> reply \<times> disk \<times> server" where
  "complete_admin_level_training env d srv session_id lesson_id =
     (case (session_id, lesson_id) of
        (Some sid, Some l) \<Rightarrow>
          if sid = [] \<or> l = [] then (Reply_error ''Missing required fields'' 400, d, srv)
          else if \<not> startswith sid ''admin_level_'' then (Reply_error ''Invalid admin session'' 403, d, srv)
          else
            (case run_training env d (srv_training_collector srv) True (Some l) of
               ((success, accuracy), d', c') \<Rightarrow>
                 if success
                 then (Reply_success accuracy, d', srv\<lparr>srv_training_collector := c'\<rparr>)
                 else (Reply_error (''Level training failed for '' @ l) 500, d',
                       srv\<lparr>srv_training_collector := c'\<rparr>))
      | _ \<Rightarrow> (Reply_error ''Missing required fields'' 400, d, srv))"

subsection \<open>Concrete training runs and servers\<close>

text \<open>A run in which every external call succeeds, both models scoring 1 on the test part.\<close>

definition easy_training :: training where
  "easy_training =
     \<lparr>time_now = 0, fs_denied = (\<lambda>p. False), fs_write = (\<lambda>p. Written),
      train_test_split =
        (\<lambda>X y stratify. Inr \<lparr>X_train = X, X_test = X, y_train = y, y_test = y\<rparr>),
      forest_fit = (\<lambda>sp. Inr (const_rf 3 [0, 0, 0, 1, 0], 1)),
      network_fit = (\<lambda>w n sp. Inr (const_tf [0, 0, 0, 1, 0], 1))\<rparr>"

text \<open>The regular session after \<open>n\<close> frames labelled \<open>Hello\<close>, each with a detected hand.\<close>

definition hello_session :: "nat \<Rightarrow> collector" where
  "hello_session n =
     ((\<lambda>c. snd (process_training_frame seeing_vision c ''Hello'' ''frame'')) ^^ n) regular_session"

text \<open>A default artifact with a trained network, and a server that has loaded it.\<close>

definition default_disk :: disk where
  "default_disk p =
     (if p = ''models''
      then Some \<lparr>meta_json = Missing, tf_dir = Holds (const_tf [0.1, 0.9, 0, 0, 0]),
                 rf_pkl = Missing\<rparr>
      else None)"

definition idle_server :: server where
  "idle_server =
     \<lparr>srv_asl_model = asl_model_init default_disk, srv_training_collector = regular_session\<rparr>"

text \<open>
  What the directory of the default artifact holds once a regular run has cleaned it: of
  each model file nothing, a file that a write left unfinished, or the model that this
  run fitted.
\<close>

definition run_output :: "training \<Rightarrow> artifact \<Rightarrow> bool" where
  "run_output env a =
     ((tf_dir a = Missing \<or> tf_dir a = Unreadable \<or>
       (\<exists>w n sp t ta. network_fit env w n sp = Inr (t, ta) \<and> tf_dir a = Holds t)) \<and>
      (rf_pkl a = Missing \<or> rf_pkl a = Unreadable \<or>
       (\<exists>sp r ra. forest_fit env sp = Inr (r, ra) \<and> rf_pkl a = Holds r)))"

definition models_renewed :: "training \<Rightarrow> disk \<Rightarrow> bool" where
  "models_renewed env d = (\<exists>a. d ''models'' = Some a \<and> run_output env a)"

text \<open>
  A run whose data split raises, and a server that has loaded the default network and
  whose session holds two detected frames of \<open>Hello\<close>.
\<close>

definition split_failing_training :: training where
  "split_failing_training =
     easy_training\<lparr>train_test_split := (\<lambda>X y stratify. Inl RuntimeError)\<rparr>"

definition collecting_server :: server where
  "collecting_server =
     \<lparr>srv_asl_model = asl_model_init default_disk, srv_training_collector = hello_session 2\<rparr>"

section \<open>Properties of the practice mode manager\<close>

lemma enter_lesson_1_two_lessons:
  "enter_practice_mode two_lessons_disk level_manager_init ''lesson_1'' =
     (True,
      \<lparr>level_models_dir = ''level_models'',
       current_level_labels = [''Hello'', ''Thank You'', ''Yes'', ''No''],
       current_level_id = Some ''lesson_1'', is_practice_mode = True,
       current_level_model = Some (const_tf [0.1, 0.7, 0.1, 0.1]),
       current_level_rf_model = None,
       current_level_metadata = Some (lesson_metadata ''lesson_1'')\<rparr>)"
  by (simp add: enter_practice_mode_def load_level_model_def dict_get_list_def os_path_join_def
      is_not_None_def PRACTICE_LEVEL_GESTURES_def level_manager_init_def two_lessons_disk_def)

lemma np_argmax_Inr: "np_argmax p = Inr c \<Longrightarrow> \<exists>v. np_max p = Inr v"
  by (cases p) auto

text \<open>
  C2, evaluated on the code. A freshly initialised manager enters \<open>lesson_1\<close> whose
  directory exists but holds no model file: the call fails, yet the lesson id and the
  label list of the manager are those of the requested lesson and no longer the prior
  (empty) ones.
\<close>

theorem enter_practice_mode_failure_changes_state:
  "enter_practice_mode empty_lesson_disk level_manager_init ''lesson_1'' =
     (False, level_manager_init\<lparr>current_level_id := Some ''lesson_1'',
               current_level_labels := [''Hello'', ''Thank You'', ''Yes'', ''No'']\<rparr>)"
  by (simp add: enter_practice_mode_def load_level_model_def dict_get_list_def os_path_join_def
      is_not_None_def PRACTICE_LEVEL_GESTURES_def level_manager_init_def empty_lesson_disk_def)

text \<open>
  C3, evaluated on the code. The manager enters \<open>lesson_1\<close> and then \<open>lesson_2\<close>, whose
  directory holds a forest but neither a network nor metadata. The second call
  succeeds, and the manager still holds the network and the metadata of \<open>lesson_1\<close>;
  since the network is preferred, the next prediction is a \<open>lesson_1\<close> gesture.
\<close>

theorem enter_practice_mode_keeps_previous_lesson:
  "(let s1 = snd (enter_practice_mode two_lessons_disk level_manager_init ''lesson_1'');
        r = enter_practice_mode two_lessons_disk s1 ''lesson_2''
    in fst r \<and> is_practice_mode (snd r) \<and> current_level_id (snd r) = Some ''lesson_2'' \<and>
       current_level_model (snd r) = Some (const_tf [0.1, 0.7, 0.1, 0.1]) \<and>
       current_level_metadata (snd r) = Some (lesson_metadata ''lesson_1'') \<and>
       predict_with_level_model (snd r) [] = (''Thank You'', 0.7))"
  apply (simp add: enter_lesson_1_two_lessons Let_def)
  apply (simp add: enter_practice_mode_def load_level_model_def dict_get_list_def
      os_path_join_def is_not_None_def PRACTICE_LEVEL_GESTURES_def two_lessons_disk_def Let_def)
  apply (simp add: predict_with_level_model_def level_predict_try_def and_then_def const_tf_def
      gesture_labels_def lesson_metadata_def py_index_def dict_get_list_def
      PRACTICE_LEVEL_GESTURES_def)
  done

text \<open>
  C4. While practice mode is active, a class index \<open>c\<close> that is not below the length of
  the label list the prediction is resolved against gives the result
  \<open>(''No model'', 0)\<close>: for the network, whose index is the argmax of its scores, and
  for the forest, which is consulted when no network is loaded. The \<^verbatim>\<open>try\<close> block
  returns (\<open>Inr\<close>), so no \<^verbatim>\<open>IndexError\<close> was raised: the list is not indexed. Should
  the forest give its class and then fail to give its probabilities, the answer is
  the other sentinel, \<open>(''Error'', 0)\<close>, again before any indexing.
\<close>

theorem predict_with_level_model_out_of_range:
  assumes "is_practice_mode s" and "length (gesture_labels s) \<le> c"
  shows "(current_level_model s = Some m \<and> tf_predict m feats = Inr p \<and> np_argmax p = Inr c
            \<longrightarrow> level_predict_try s feats = Inr (''No model'', 0) \<and>
                predict_with_level_model s feats = (''No model'', 0)) \<and>
         (current_level_model s = None \<and> current_level_rf_model s = Some rf \<and>
          rf_predict rf feats = Inr c \<and> rf_predict_proba rf feats = Inr pr \<and> pr \<noteq> []
            \<longrightarrow> level_predict_try s feats = Inr (''No model'', 0) \<and>
                predict_with_level_model s feats = (''No model'', 0)) \<and>
         (current_level_model s = None \<and> current_level_rf_model s = Some rf \<and>
          rf_predict rf feats = Inr c
            \<longrightarrow> predict_with_level_model s feats \<in> {(''No model'', 0), (''Error'', 0)})"
proof (intro conjI impI)
  assume h: "current_level_model s = Some m \<and> tf_predict m feats = Inr p \<and> np_argmax p = Inr c"
  then obtain v where v: "np_max p = Inr v" using np_argmax_Inr by blast
  from h v assms(2) show t: "level_predict_try s feats = Inr (''No model'', 0)"
    by (simp add: level_predict_try_def and_then_def)
  from t assms(1) show "predict_with_level_model s feats = (''No model'', 0)"
    by (simp add: predict_with_level_model_def)
next
  assume h: "current_level_model s = None \<and> current_level_rf_model s = Some rf \<and>
          rf_predict rf feats = Inr c \<and> rf_predict_proba rf feats = Inr pr \<and> pr \<noteq> []"
  then obtain v where v: "np_max pr = Inr v" by (cases pr) auto
  from h v assms(2) show t: "level_predict_try s feats = Inr (''No model'', 0)"
    by (simp add: level_predict_try_def and_then_def)
  from t assms(1) show "predict_with_level_model s feats = (''No model'', 0)"
    by (simp add: predict_with_level_model_def)
next
  assume h: "current_level_model s = None \<and> current_level_rf_model s = Some rf \<and>
          rf_predict rf feats = Inr c"
  show "predict_with_level_model s feats \<in> {(''No model'', 0), (''Error'', 0)}"
  proof (cases "rf_predict_proba rf feats")
    case (Inl e)
    with h assms(1) show ?thesis
      by (simp add: predict_with_level_model_def level_predict_try_def and_then_def)
  next
    case (Inr pr')
    with h assms show ?thesis
      by (cases pr')
        (simp_all add: predict_with_level_model_def level_predict_try_def and_then_def)
  qed
qed

theorem predict_with_level_model_out_of_range_witness:
  "is_practice_mode mismatch_tf_manager \<and>
   length (gesture_labels mismatch_tf_manager) \<le> 2 \<and>
   current_level_model mismatch_tf_manager = Some (const_tf [0.1, 0.2, 0.7]) \<and>
   tf_predict (const_tf [0.1, 0.2, 0.7]) [] = Inr [0.1, 0.2, 0.7] \<and>
   np_argmax [0.1, 0.2, 0.7] = Inr 2 \<and>
   predict_with_level_model mismatch_tf_manager [] = (''No model'', 0) \<and>
   is_practice_mode mismatch_rf_manager \<and>
   length (gesture_labels mismatch_rf_manager) \<le> 5 \<and>
   current_level_model mismatch_rf_manager = None \<and>
   current_level_rf_model mismatch_rf_manager = Some (const_rf 5 [0.5, 0.5]) \<and>
   rf_predict (const_rf 5 [0.5, 0.5]) [] = Inr 5 \<and>
   rf_predict_proba (const_rf 5 [0.5, 0.5]) [] = Inr [0.5, 0.5] \<and>
   predict_with_level_model mismatch_rf_manager [] = (''No model'', 0)"
proof -
  have a: "is_practice_mode mismatch_tf_manager"
    "length (gesture_labels mismatch_tf_manager) \<le> 2"
    by (simp_all add: mismatch_tf_manager_def gesture_labels_def)
  have b: "is_practice_mode mismatch_rf_manager"
    "length (gesture_labels mismatch_rf_manager) \<le> 5"
    by (simp_all add: mismatch_rf_manager_def gesture_labels_def)
  have c: "current_level_model mismatch_tf_manager = Some (const_tf [0.1, 0.2, 0.7])"
    "tf_predict (const_tf [0.1, 0.2, 0.7]) [] = Inr [0.1, 0.2, 0.7]"
    "np_argmax [0.1, 0.2, 0.7] = Inr 2"
    by (simp_all add: mismatch_tf_manager_def const_tf_def)
  have d: "current_level_model mismatch_rf_manager = None"
    "current_level_rf_model mismatch_rf_manager = Some (const_rf 5 [0.5, 0.5])"
    "rf_predict (const_rf 5 [0.5, 0.5]) [] = Inr 5"
    "rf_predict_proba (const_rf 5 [0.5, 0.5]) [] = Inr [0.5, 0.5]"
    by (simp_all add: mismatch_rf_manager_def const_rf_def)
  show ?thesis
    using a b c d
      predict_with_level_model_out_of_range
        [OF a, of "const_tf [0.1, 0.2, 0.7]" "[]" "[0.1, 0.2, 0.7]" "const_rf 5 [0.5, 0.5]" "[0.5, 0.5]"]
      predict_with_level_model_out_of_range
        [OF b, of "const_tf [0.1, 0.2, 0.7]" "[]" "[0.1, 0.2, 0.7]" "const_rf 5 [0.5, 0.5]" "[0.5, 0.5]"]
    by simp
qed

text \<open>
  C9. Leaving practice mode twice gives the state that leaving it once gives; the state
  after a call has every context field cleared and the flag down; and on a manager that
  is already in that cleared state the call changes nothing.
\<close>

theorem exit_practice_mode_idempotent:
  "exit_practice_mode (exit_practice_mode s) = exit_practice_mode s \<and>
   lesson_inactive (exit_practice_mode s) \<and>
   (lesson_inactive s \<longrightarrow> exit_practice_mode s = s)"
  by (simp add: exit_practice_mode_def lesson_inactive_def)

theorem exit_practice_mode_idempotent_witness:
  "lesson_inactive level_manager_init \<and>
   exit_practice_mode level_manager_init = level_manager_init \<and>
   exit_practice_mode (exit_practice_mode level_manager_init) =
     exit_practice_mode level_manager_init"
  using exit_practice_mode_idempotent [of level_manager_init]
  by (simp add: lesson_inactive_def level_manager_init_def)

section \<open>Properties of the default model\<close>

lemma rule_based_total: "length feats = 63 \<Longrightarrow> \<exists>l c. rule_based_prediction feats = Inr (l, c)"
  by (cases "finger_rules (landmarks_fingers_up feats)") (simp add: rule_based_prediction_def)

lemma rb_flat: "rule_based_prediction flat_hand = Inr (''Thank You'', 0.6)"
  by (simp add: rule_based_prediction_def landmarks_fingers_up_def finger_rules_def flat_hand_def Let_def py_sum_bools_def)

text \<open>
  C8, the claim as stated fails. The default artifact holds a forest and no network;
  the forest classifies the vector as \<open>No\<close>. The default model loads nothing from it and
  answers by the finger rules.
\<close>

theorem predict_ignores_ensemble:
  "forest_only_disk ''models'' =
     Some \<lparr>meta_json = Missing, tf_dir = Missing, rf_pkl = Holds (const_rf 1 [0.1, 0.9, 0, 0, 0])\<rparr> \<and>
   rf_predict (const_rf 1 [0.1, 0.9, 0, 0, 0]) flat_hand = Inr 1 \<and>
   ORIGINAL_LABELS ! 1 = ''No'' \<and>
   predict (asl_model_init forest_only_disk) flat_hand = Inr (''Thank You'', 0.6)"
  by (simp add: predict_def asl_model_init_def load_model_def forest_only_disk_def rb_flat const_rf_def ORIGINAL_LABELS_def)

text \<open>
  C8, amended. For a feature vector of 63 numbers \<^verbatim>\<open>predict\<close> always returns a label
  and a confidence. It returns the network's answer when the flag is up, a network is
  held and its prediction does not raise; it returns the answer of the finger rules
  when that prediction raises and when no network is loaded. What the default
  artifact holds as a forest has no effect on the loaded default model.
\<close>

theorem predict_total:
  assumes "length feats = 63"
  shows "(\<exists>label confidence. predict a feats = Inr (label, confidence)) \<and>
         (model_loaded a \<and> model a = Some m \<and> model_predict_try m feats = Inr r
            \<longrightarrow> predict a feats = Inr r) \<and>
         (model_loaded a \<and> model a = Some m \<and> model_predict_try m feats = Inl e
            \<longrightarrow> predict a feats = rule_based_prediction feats) \<and>
         (\<not> model_loaded a \<or> model a = None
            \<longrightarrow> predict a feats = rule_based_prediction feats) \<and>
         load_model (d(''models'' := Some (art\<lparr>rf_pkl := f\<rparr>))) a =
           load_model (d(''models'' := Some art)) a"
proof -
  obtain l c where rb: "rule_based_prediction feats = Inr (l, c)"
    using rule_based_total [OF assms] by blast
  have "\<exists>label confidence. predict a feats = Inr (label, confidence)"
    by (cases "model_predict_try (the (model a)) feats")
      (auto simp: predict_def rb split: option.splits bool.splits)
  moreover have "load_model (d(''models'' := Some (art\<lparr>rf_pkl := f\<rparr>))) a =
      load_model (d(''models'' := Some art)) a"
    by (simp add: load_model_def)
  ultimately show ?thesis
    by (auto simp: predict_def split: option.splits bool.splits)
qed

theorem predict_total_witness:
  "length flat_hand = 63 \<and>
   model_loaded loaded_asl \<and> model loaded_asl = Some (const_tf [0.1, 0.9, 0, 0, 0]) \<and>
   model_predict_try (const_tf [0.1, 0.9, 0, 0, 0]) flat_hand = Inr (''No'', 0.9) \<and>
   predict loaded_asl flat_hand = Inr (''No'', 0.9) \<and>
   model_loaded raising_asl \<and> model raising_asl = Some (TfModel (\<lambda>feats. Inl RuntimeError)) \<and>
   model_predict_try (TfModel (\<lambda>feats. Inl RuntimeError)) flat_hand = Inl RuntimeError \<and>
   predict raising_asl flat_hand = Inr (''Thank You'', 0.6) \<and>
   model (asl_model_init (\<lambda>p. None)) = None \<and>
   predict (asl_model_init (\<lambda>p. None)) flat_hand = Inr (''Thank You'', 0.6)"
proof -
  have len: "length flat_hand = 63" by (simp add: flat_hand_def)
  have a: "model_loaded loaded_asl" "model loaded_asl = Some (const_tf [0.1, 0.9, 0, 0, 0])"
    "model_predict_try (const_tf [0.1, 0.9, 0, 0, 0]) flat_hand = Inr (''No'', 0.9)"
    by (simp_all add: loaded_asl_def model_predict_try_def and_then_def const_tf_def
        ORIGINAL_LABELS_def)
  have b: "model_loaded raising_asl"
    "model raising_asl = Some (TfModel (\<lambda>feats. Inl RuntimeError))"
    "model_predict_try (TfModel (\<lambda>feats. Inl RuntimeError)) flat_hand = Inl RuntimeError"
    by (simp_all add: raising_asl_def model_predict_try_def and_then_def)
  have c: "model (asl_model_init (\<lambda>p. None)) = None"
    by (simp add: asl_model_init_def load_model_def)
  show ?thesis
    using len a b c rb_flat
      predict_total [OF len, of loaded_asl "const_tf [0.1, 0.9, 0, 0, 0]" "(''No'', 0.9)"]
      predict_total [OF len, of raising_asl "TfModel (\<lambda>feats. Inl RuntimeError)" _ RuntimeError]
      predict_total [OF len, of "asl_model_init (\<lambda>p. None)"]
    by simp
qed

section \<open>Properties of the training collector\<close>

lemma fold_create_bucket_features:
  "training_features (fold create_bucket gs c) g =
     (if g \<in> set gs then Some [] else training_features c g)"
  by (induction gs arbitrary: c) (auto simp: create_bucket_def)

lemma fold_create_bucket_labels:
  "training_labels (fold create_bucket gs c) g =
     (if g \<in> set gs then Some [] else training_labels c g)"
  by (induction gs arbitrary: c) (auto simp: create_bucket_def)

lemma fold_create_bucket_others:
  "current_lesson_gestures (fold create_bucket gs c) = current_lesson_gestures c \<and>
   current_session (fold create_bucket gs c) = current_session c \<and>
   current_lesson_id (fold create_bucket gs c) = current_lesson_id c \<and>
   admin_level_sessions (fold create_bucket gs c) = admin_level_sessions c"
  by (induction gs arbitrary: c) (auto simp: create_bucket_def)

lemma start_training_session_gestures:
  "current_lesson_gestures (snd (start_training_session now c sid adm les)) =
     (case admin_lesson adm les of
        Some l \<Rightarrow> dict_get_list LESSON_GESTURES l
      | None \<Rightarrow> ORIGINAL_LABELS)"
  by (simp add: start_training_session_def Let_def fold_create_bucket_others split: option.splits)

lemma start_training_session_features:
  "training_features (snd (start_training_session now c sid adm les)) g =
     (if g \<in> set (current_lesson_gestures (snd (start_training_session now c sid adm les)))
      then Some [] else None)"
  by (simp add: start_training_session_def Let_def fold_create_bucket_others
      fold_create_bucket_features split: option.splits)

lemma start_training_session_labels:
  "training_labels (snd (start_training_session now c sid adm les)) g =
     (if g \<in> set (current_lesson_gestures (snd (start_training_session now c sid adm les)))
      then Some [] else None)"
  by (simp add: start_training_session_def Let_def fold_create_bucket_others
      fold_create_bucket_labels split: option.splits)

lemma start_training_session_session:
  "current_session (snd (start_training_session now c sid adm les)) = Some sid"
  by (simp add: start_training_session_def Let_def fold_create_bucket_others split: option.splits)

text \<open>
  C6. Whatever the collector held (the samples of a session A), after
  \<^verbatim>\<open>start_training_session\<close> for a session B the current session is B, the vocabulary is
  the one resolved for B, and the feature and label buckets are exactly the gestures of
  that vocabulary, each empty: nothing of A is left, and every count is zero.
\<close>

theorem start_training_session_fresh_buckets:
  "current_session (snd (start_training_session now c session_id is_admin_level lesson_id)) =
     Some session_id \<and>
   current_lesson_gestures (snd (start_training_session now c session_id is_admin_level lesson_id)) =
     (case admin_lesson is_admin_level lesson_id of
        Some l \<Rightarrow> dict_get_list LESSON_GESTURES l
      | None \<Rightarrow> ORIGINAL_LABELS) \<and>
   (\<forall>g. training_features (snd (start_training_session now c session_id is_admin_level lesson_id)) g =
      (if g \<in> set (current_lesson_gestures
                     (snd (start_training_session now c session_id is_admin_level lesson_id)))
       then Some [] else None)) \<and>
   (\<forall>g. training_labels (snd (start_training_session now c session_id is_admin_level lesson_id)) g =
      (if g \<in> set (current_lesson_gestures
                     (snd (start_training_session now c session_id is_admin_level lesson_id)))
       then Some [] else None)) \<and>
   (\<forall>g. current_count (snd (start_training_session now c session_id is_admin_level lesson_id)) g = 0)"
  using start_training_session_gestures [of now c session_id is_admin_level lesson_id]
    start_training_session_session [of now c session_id is_admin_level lesson_id]
  by (simp add: start_training_session_features start_training_session_labels current_count_def)

lemma start_training_session_buckets_in_vocabulary:
  "buckets_in_vocabulary (snd (start_training_session now c sid adm les))"
  by (auto simp: buckets_in_vocabulary_def start_training_session_features split: if_splits)

lemma process_frame_try_dom:
  "dom (training_features (snd (process_frame_try env c g img))) = dom (training_features c)"
  by (auto simp: process_frame_try_def Let_def split: sum.splits option.splits prod.splits bool.splits if_splits)

lemma process_frame_try_gestures:
  "current_lesson_gestures (snd (process_frame_try env c g img)) = current_lesson_gestures c"
  by (auto simp: process_frame_try_def Let_def split: sum.splits option.splits prod.splits bool.splits if_splits)

lemma process_training_frame_buckets_in_vocabulary:
  "buckets_in_vocabulary c \<Longrightarrow>
   buckets_in_vocabulary (snd (process_training_frame env c g img))"
  by (simp add: buckets_in_vocabulary_def process_training_frame_def Let_def
      process_frame_try_dom process_frame_try_gestures split: sum.splits option.splits)

text \<open>
  The buckets of a collector belong to its vocabulary from \<^verbatim>\<open>__init__\<close> on, and after
  every training run.
\<close>

lemma collector_init_buckets_in_vocabulary: "buckets_in_vocabulary collector_init"
  by (simp add: buckets_in_vocabulary_def collector_init_def)

lemma run_training_buckets_in_vocabulary:
  "buckets_in_vocabulary c \<Longrightarrow>
   buckets_in_vocabulary (snd (snd (run_training env d c is_admin_level lesson_id)))"
  by (auto simp: run_training_def Let_def buckets_in_vocabulary_def split: prod.splits sum.splits)

text \<open>A frame adds at most one sample to a bucket.\<close>

lemma process_frame_try_count:
  "current_count (snd (process_frame_try env c g img)) g' \<le> Suc (current_count c g')"
  by (auto simp: process_frame_try_def current_count_def Let_def
      split: sum.splits option.splits prod.splits bool.splits)

lemma process_training_frame_count:
  "current_count (snd (process_training_frame env c g img)) g' \<le> Suc (current_count c g')"
  by (simp add: process_training_frame_def Let_def process_frame_try_count
      split: sum.splits option.splits)

text \<open>
  \<^verbatim>\<open>add_training_sample\<close> under a session id other than the current one works on the
  collector that \<^verbatim>\<open>start_training_session\<close> leaves for the new id, so every count it
  reports afterwards is at most the one sample of this call.
\<close>

lemma add_training_sample_switches_session:
  assumes "truthy (current_session c)" and "current_session c \<noteq> Some sid"
    and "sid \<noteq> []" and "g \<noteq> []" and "frame \<noteq> []"
  shows "snd (add_training_sample env now c (Some sid) (Some g) (Some frame)) =
           snd (process_training_frame env
                  (snd (start_training_session now c sid False None)) g frame) \<and>
         current_count (snd (add_training_sample env now c (Some sid) (Some g) (Some frame))) g'
           \<le> 1"
proof -
  have s: "snd (add_training_sample env now c (Some sid) (Some g) (Some frame)) =
           snd (process_training_frame env
                  (snd (start_training_session now c sid False None)) g frame)"
    using assms
    by (simp add: add_training_sample_def Let_def start_training_session_session
        split: sum.splits)
  have z: "current_count (snd (start_training_session now c sid False None)) g' = 0"
    by (simp add: current_count_def start_training_session_features)
  show ?thesis
    using process_training_frame_count
      [of env "snd (start_training_session now c sid False None)" g frame g'] s z
    by simp
qed

lemma process_frame_try_unknown_bucket:
  assumes "training_features c g = None"
  shows "snd (process_frame_try env c g img) = c \<and>
         fst (process_frame_try env c g img) \<in> {Inr (Some 0), Inr None} \<union> range Inl"
  using assms
  by (auto simp: process_frame_try_def Let_def split: sum.splits option.splits prod.splits bool.splits)

text \<open>
  C5, amended. Without a current session the call returns 0 and leaves the collector as
  it is. When the gesture name, stripped of leading and trailing white space, is not in
  the vocabulary of the current session, the call returns 0, raises nothing and leaves
  the collector as it is (in every collector whose buckets belong to its vocabulary,
  which \<^verbatim>\<open>start_training_session\<close> establishes and \<^verbatim>\<open>process_training_frame\<close> keeps).
\<close>

theorem process_training_frame_rejects:
  "(\<not> truthy (current_session c) \<longrightarrow>
      process_training_frame env c gesture_name image_data = (Inr 0, c)) \<and>
   (py_strip gesture_name \<notin> set (current_lesson_gestures c) \<and> buckets_in_vocabulary c \<longrightarrow>
      process_training_frame env c gesture_name image_data = (Inr 0, c))"
proof (intro conjI impI)
  assume "\<not> truthy (current_session c)"
  then show "process_training_frame env c gesture_name image_data = (Inr 0, c)"
    by (simp add: process_training_frame_def)
next
  assume h: "py_strip gesture_name \<notin> set (current_lesson_gestures c) \<and> buckets_in_vocabulary c"
  then have none: "training_features c (py_strip gesture_name) = None"
    by (auto simp: buckets_in_vocabulary_def)
  have sc: "current_count c (py_strip gesture_name) = 0"
    by (simp add: current_count_def none)
  from process_frame_try_unknown_bucket [OF none, of env image_data] sc
  show "process_training_frame env c gesture_name image_data = (Inr 0, c)"
    by (auto simp: process_training_frame_def Let_def)
qed


lemma regular_session_fields:
  "current_session regular_session = Some ''s1''"
  "current_lesson_gestures regular_session = ORIGINAL_LABELS"
  "buckets_in_vocabulary regular_session"
  unfolding regular_session_def
  by (simp_all add: start_training_session_session start_training_session_gestures
      start_training_session_buckets_in_vocabulary admin_lesson_def)

lemma regular_session_hello:
  "training_features regular_session ''Hello'' = Some []"
  "training_labels regular_session ''Hello'' = Some []"
  unfolding regular_session_def
  by (simp_all add: start_training_session_features start_training_session_labels
      start_training_session_gestures admin_lesson_def ORIGINAL_LABELS_def)

lemma py_strip_examples:
  "py_strip '' Hello '' = ''Hello''" "py_strip ''Hello'' = ''Hello''" "py_strip ''Wave'' = ''Wave''"
  by (simp_all add: py_strip_def py_isspace_def)

text \<open>
  C5, the claim as stated fails. In a regular session the name \<open>'' Hello ''\<close>, with a
  space on each side, is not in the vocabulary; the code strips it first, so the frame
  is accepted: the call returns 1 and the bucket of \<open>Hello\<close> has grown.
\<close>

theorem process_training_frame_strips_name:
  "truthy (current_session regular_session) \<and>
   '' Hello '' \<notin> set (current_lesson_gestures regular_session) \<and>
   fst (process_training_frame seeing_vision regular_session '' Hello '' ''frame'') = Inr 1 \<and>
   training_features (snd (process_training_frame seeing_vision regular_session '' Hello '' ''frame''))
     ''Hello'' = Some [flat_hand] \<and>
   training_features regular_session ''Hello'' = Some []"
  by (simp add: regular_session_fields regular_session_hello process_training_frame_def
      process_frame_try_def py_strip_examples session_valid_gestures_def seeing_vision_def
      image_payload_def Let_def ORIGINAL_LABELS_def)

theorem process_training_frame_rejects_witness:
  "\<not> truthy (current_session collector_init) \<and>
   process_training_frame seeing_vision collector_init ''Hello'' ''frame'' = (Inr 0, collector_init) \<and>
   py_strip ''Wave'' \<notin> set (current_lesson_gestures regular_session) \<and>
   buckets_in_vocabulary regular_session \<and>
   process_training_frame seeing_vision regular_session ''Wave'' ''frame'' = (Inr 0, regular_session)"
proof -
  have a: "\<not> truthy (current_session collector_init)"
    by (simp add: collector_init_def)
  have b: "py_strip ''Wave'' \<notin> set (current_lesson_gestures regular_session)"
    by (simp add: py_strip_examples regular_session_fields ORIGINAL_LABELS_def)
  show ?thesis
    using a b regular_session_fields(3)
      process_training_frame_rejects
        [where c = collector_init and env = seeing_vision and gesture_name = "''Hello''"
           and image_data = "''frame''"]
      process_training_frame_rejects
        [where c = regular_session and env = seeing_vision and gesture_name = "''Wave''"
           and image_data = "''frame''"]
    by blast
qed

text \<open>
  C10. \<^verbatim>\<open>process_training_frame\<close> always returns a natural number and lets no exception
  out. With a current session and a valid gesture name, a frame whose base64 text is
  rejected, whose buffer fails to decode or decodes to no image, or in which the
  extractor reports no hand (its own errors included) leaves the collector as it is and
  returns the current sample count of the gesture: the same answer in each case.
\<close>

theorem process_training_frame_total:
  "(\<exists>n c'. process_training_frame env c gesture_name image_data = (Inr n, c')) \<and>
   (truthy (current_session c) \<and> py_strip gesture_name \<in> set (session_valid_gestures c) \<longrightarrow>
      (b64decode env (image_payload image_data) = Inl e \<longrightarrow>
         process_training_frame env c gesture_name image_data =
           (Inr (current_count c (py_strip gesture_name)), c)) \<and>
      (b64decode env (image_payload image_data) = Inr bs \<and> imdecode env bs = Inl e \<longrightarrow>
         process_training_frame env c gesture_name image_data =
           (Inr (current_count c (py_strip gesture_name)), c)) \<and>
      (b64decode env (image_payload image_data) = Inr bs \<and> imdecode env bs = Inr None \<longrightarrow>
         process_training_frame env c gesture_name image_data =
           (Inr (current_count c (py_strip gesture_name)), c)) \<and>
      (b64decode env (image_payload image_data) = Inr bs \<and> imdecode env bs = Inr (Some im) \<and>
       (fst (extract_hand_landmarks env im) = None \<or> \<not> snd (extract_hand_landmarks env im)) \<longrightarrow>
         process_training_frame env c gesture_name image_data =
           (Inr (current_count c (py_strip gesture_name)), c)))"
proof -
  have total: "\<exists>n c'. process_training_frame env c gesture_name image_data = (Inr n, c')"
    by (simp add: process_training_frame_def Let_def split: sum.splits option.splits)
  have rest: "truthy (current_session c) \<and> py_strip gesture_name \<in> set (session_valid_gestures c) \<longrightarrow>
      (b64decode env (image_payload image_data) = Inl e \<longrightarrow>
         process_training_frame env c gesture_name image_data =
           (Inr (current_count c (py_strip gesture_name)), c)) \<and>
      (b64decode env (image_payload image_data) = Inr bs \<and> imdecode env bs = Inl e \<longrightarrow>
         process_training_frame env c gesture_name image_data =
           (Inr (current_count c (py_strip gesture_name)), c)) \<and>
      (b64decode env (image_payload image_data) = Inr bs \<and> imdecode env bs = Inr None \<longrightarrow>
         process_training_frame env c gesture_name image_data =
           (Inr (current_count c (py_strip gesture_name)), c)) \<and>
      (b64decode env (image_payload image_data) = Inr bs \<and> imdecode env bs = Inr (Some im) \<and>
       (fst (extract_hand_landmarks env im) = None \<or> \<not> snd (extract_hand_landmarks env im)) \<longrightarrow>
         process_training_frame env c gesture_name image_data =
           (Inr (current_count c (py_strip gesture_name)), c))"
    by (auto simp: process_training_frame_def process_frame_try_def Let_def
        split: option.splits bool.splits prod.splits)
  from total rest show ?thesis by blast
qed

lemma two_hello_session_fields:
  "truthy (current_session two_hello_session)"
  "py_strip ''Hello'' \<in> set (session_valid_gestures two_hello_session)"
  "current_count two_hello_session ''Hello'' = 2"
  by (simp_all add: two_hello_session_def regular_session_fields regular_session_hello
      process_training_frame_def process_frame_try_def py_strip_examples
      session_valid_gestures_def seeing_vision_def image_payload_def Let_def ORIGINAL_LABELS_def
      current_count_def)

theorem process_training_frame_total_witness:
  "truthy (current_session two_hello_session) \<and>
   py_strip ''Hello'' \<in> set (session_valid_gestures two_hello_session) \<and>
   b64decode garbled_vision (image_payload ''frame'') = Inl ValueError \<and>
   process_training_frame garbled_vision two_hello_session ''Hello'' ''frame'' =
     (Inr 2, two_hello_session) \<and>
   b64decode blind_vision (image_payload ''frame'') = Inr ''frame'' \<and>
   imdecode blind_vision ''frame'' = Inr (Some ''frame'') \<and>
   fst (extract_hand_landmarks blind_vision ''frame'') = None \<and>
   process_training_frame blind_vision two_hello_session ''Hello'' ''frame'' =
     (Inr 2, two_hello_session)"
proof -
  have g: "b64decode garbled_vision (image_payload ''frame'') = Inl ValueError"
    by (simp add: garbled_vision_def)
  have b: "b64decode blind_vision (image_payload ''frame'') = Inr ''frame''"
    "imdecode blind_vision ''frame'' = Inr (Some ''frame'')"
    "fst (extract_hand_landmarks blind_vision ''frame'') = None"
    by (simp_all add: blind_vision_def image_payload_def)
  show ?thesis
    using two_hello_session_fields g b
      process_training_frame_total
        [where env = garbled_vision and c = two_hello_session and gesture_name = "''Hello''"
           and image_data = "''frame''" and e = ValueError]
      process_training_frame_total
        [where env = blind_vision and c = two_hello_session and gesture_name = "''Hello''"
           and image_data = "''frame''" and bs = "''frame''" and im = "''frame''"]
    by (simp add: py_strip_examples)
qed

section \<open>Properties of the model trainer\<close>

lemma collect_fold_keeps:
  "fst acc \<noteq> [] \<Longrightarrow> fst (fold (collect_gesture c) gs acc) \<noteq> []"
  by (induction gs arbitrary: acc) (auto simp: collect_gesture_def Let_def)

lemma collect_fold_finds:
  "g0 \<in> set gs \<Longrightarrow> training_features c g0 = Some fs \<Longrightarrow> fs \<noteq> [] \<Longrightarrow>
   fst (fold (collect_gesture c) gs acc) \<noteq> []"
proof (induction gs arbitrary: acc)
  case Nil
  then show ?case by simp
next
  case (Cons g gs)
  show ?case
  proof (cases "g = g0")
    case True
    with Cons.prems have "fst (collect_gesture c g acc) \<noteq> []"
      by (simp add: collect_gesture_def Let_def)
    then show ?thesis by (simp add: collect_fold_keeps)
  next
    case False
    with Cons show ?thesis by simp
  qed
qed

lemma collect_samples_nonempty:
  "g0 \<in> set gs \<Longrightarrow> training_features c g0 = Some fs \<Longrightarrow> fs \<noteq> [] \<Longrightarrow>
   fst (collect_samples c gs) \<noteq> []"
  by (simp add: collect_samples_def collect_fold_finds)

lemma run_gestures_regular: "run_gestures False lesson_id = ORIGINAL_LABELS"
  by (simp add: run_gestures_def admin_lesson_def)

lemma train_steps_regular_ok:
  assumes "\<forall>p. \<not> fs_denied env p" and "\<forall>p. fs_write env p = Written"
    and "split_data env X y = Inr sp"
    and "forest_fit env sp = Inr (rf, ra)"
    and "network_fit env (length (hd X)) (length ORIGINAL_LABELS) sp = Inr (tf, ta)"
  shows "fst (train_steps env d c False lesson_id X y) = Inr (max ra ta)"
  using assms
  by (simp add: train_steps_def admin_lesson_def then_io_def clean_old_models_def os_makedirs_def
      run_gestures_regular write_rf_def write_tf_def write_metadata_def Let_def
      split: option.splits)

lemma run_training_populated:
  assumes "g0 \<in> set ORIGINAL_LABELS" and "training_features c g0 = Some fs" and "fs \<noteq> []"
  shows "fst (fst (run_training env d c False lesson_id)) =
           (\<exists>a. fst (train_steps env d c False lesson_id
                        (fst (collect_samples c ORIGINAL_LABELS))
                        (snd (collect_samples c ORIGINAL_LABELS))) = Inr a)"
proof -
  have ne: "fst (collect_samples c ORIGINAL_LABELS) \<noteq> []"
    using assms by (rule collect_samples_nonempty)
  show ?thesis
    by (cases "train_steps env d c False lesson_id
                 (fst (collect_samples c ORIGINAL_LABELS)) (snd (collect_samples c ORIGINAL_LABELS))")
      (auto simp: run_training_def run_gestures_regular Let_def ne split: sum.splits)
qed

lemma run_training_populated_ok:
  assumes "g0 \<in> set ORIGINAL_LABELS" and "training_features c g0 = Some fs" and "fs \<noteq> []"
    and "\<forall>p. \<not> fs_denied env p" and "\<forall>p. fs_write env p = Written"
    and "split_data env (fst (collect_samples c ORIGINAL_LABELS))
           (snd (collect_samples c ORIGINAL_LABELS)) = Inr sp"
    and "forest_fit env sp = Inr (rf, ra)"
    and "network_fit env (length (hd (fst (collect_samples c ORIGINAL_LABELS))))
           (length ORIGINAL_LABELS) sp = Inr (tf, ta)"
  shows "fst (run_training env d c False lesson_id) = (True, max ra ta)"
proof -
  have ne: "fst (collect_samples c ORIGINAL_LABELS) \<noteq> []"
    using assms(1-3) by (rule collect_samples_nonempty)
  have ok: "fst (train_steps env d c False lesson_id
                   (fst (collect_samples c ORIGINAL_LABELS))
                   (snd (collect_samples c ORIGINAL_LABELS))) = Inr (max ra ta)"
    using assms(4-8) by (rule train_steps_regular_ok)
  show ?thesis
    using ok
    by (cases "train_steps env d c False lesson_id
                 (fst (collect_samples c ORIGINAL_LABELS)) (snd (collect_samples c ORIGINAL_LABELS))")
      (simp add: run_training_def run_gestures_regular Let_def ne)
qed

lemma seeing_frame_appends:
  assumes "truthy (current_session c)" and "current_lesson_gestures c = ORIGINAL_LABELS"
    and "training_features c ''Hello'' = Some fs" and "training_labels c ''Hello'' = Some ls"
  shows "process_training_frame seeing_vision c ''Hello'' ''frame'' =
           (Inr (Suc (length fs)),
            c\<lparr>training_features := (training_features c)(''Hello'' \<mapsto> fs @ [flat_hand]),
              training_labels := (training_labels c)(''Hello'' \<mapsto> ls @ [3])\<rparr>)"
  using assms
  by (simp add: process_training_frame_def process_frame_try_def py_strip_examples
      session_valid_gestures_def seeing_vision_def image_payload_def Let_def ORIGINAL_LABELS_def
      list_index_def eval_nat_numeral)

lemma hello_session_state:
  "hello_session n =
     regular_session\<lparr>training_features :=
                       (training_features regular_session)(''Hello'' \<mapsto> replicate n flat_hand),
                     training_labels :=
                       (training_labels regular_session)(''Hello'' \<mapsto> replicate n 3)\<rparr>"
proof (induction n)
  case 0
  have "(training_features regular_session)(''Hello'' \<mapsto> []) = training_features regular_session"
    "(training_labels regular_session)(''Hello'' \<mapsto> []) = training_labels regular_session"
    by (auto simp: regular_session_hello)
  then show ?case by (simp add: hello_session_def)
next
  case (Suc n)
  have step: "hello_session (Suc n) =
      snd (process_training_frame seeing_vision (hello_session n) ''Hello'' ''frame'')"
    by (simp add: hello_session_def)
  show ?case
    unfolding step Suc.IH
    by (subst seeing_frame_appends [where fs = "replicate n flat_hand" and ls = "replicate n 3"])
      (simp_all add: regular_session_fields replicate_append_same)
qed

lemma hello_session_count:
  "current_count (hello_session n) g = (if g = ''Hello'' then n else 0)"
  by (simp add: hello_session_state current_count_def regular_session_def
      start_training_session_features)

text \<open>
  C7, the claim as stated fails. A regular session collects fifteen detected frames of
  \<open>Hello\<close> and nothing else; every external call of the run succeeds. \<^verbatim>\<open>run_training\<close>
  has no test of class diversity: it returns success with the better accuracy.
\<close>

theorem run_training_single_gesture_succeeds:
  "(\<forall>g. current_count (hello_session 15) g = (if g = ''Hello'' then 15 else 0)) \<and>
   fst (run_training easy_training (\<lambda>p. None) (hello_session 15) False None) = (True, 1)"
proof -
  have f: "training_features (hello_session 15) ''Hello'' = Some (replicate 15 flat_hand)"
    by (simp add: hello_session_state)
  have "fst (run_training easy_training (\<lambda>p. None) (hello_session 15) False None) = (True, max 1 1)"
    by (rule run_training_populated_ok [where ?g0.0 = "''Hello''", OF _ f])
      (simp_all add: ORIGINAL_LABELS_def easy_training_def split_data_def)
  then show ?thesis by (simp add: hello_session_count)
qed

text \<open>
  C7, amended. In a regular run over a collector in which some gesture of the default
  vocabulary has samples (in particular exactly one gesture, all other buckets empty),
  \<^verbatim>\<open>run_training\<close> passes the empty-data test and succeeds exactly when no step of the
  split, fit and persist pipeline raises; when the file system refuses nothing and the
  split and both fits return, it returns success with the larger of the two accuracies.
\<close>

theorem run_training_single_gesture:
  assumes "g0 \<in> set ORIGINAL_LABELS" and "training_features c g0 = Some fs" and "fs \<noteq> []"
  shows "fst (fst (run_training env d c False lesson_id)) =
           (\<exists>a. fst (train_steps env d c False lesson_id
                        (fst (collect_samples c ORIGINAL_LABELS))
                        (snd (collect_samples c ORIGINAL_LABELS))) = Inr a) \<and>
         ((\<forall>p. \<not> fs_denied env p) \<and> (\<forall>p. fs_write env p = Written) \<and>
          split_data env (fst (collect_samples c ORIGINAL_LABELS))
            (snd (collect_samples c ORIGINAL_LABELS)) = Inr sp \<and>
          forest_fit env sp = Inr (rf, ra) \<and>
          network_fit env (length (hd (fst (collect_samples c ORIGINAL_LABELS))))
            (length ORIGINAL_LABELS) sp = Inr (tf, ta)
            \<longrightarrow> fst (run_training env d c False lesson_id) = (True, max ra ta))"
  using run_training_populated [OF assms] run_training_populated_ok [OF assms]
  by blast

lemma hello_session_samples:
  "collect_samples (hello_session 2) ORIGINAL_LABELS = ([flat_hand, flat_hand], [3, 3])"
  by (simp add: collect_samples_def collect_gesture_def hello_session_state ORIGINAL_LABELS_def
      regular_session_def start_training_session_features start_training_session_labels
      start_training_session_gestures admin_lesson_def Let_def eval_nat_numeral)

theorem run_training_single_gesture_witness:
  "''Hello'' \<in> set ORIGINAL_LABELS \<and>
   training_features (hello_session 2) ''Hello'' = Some [flat_hand, flat_hand] \<and>
   (\<forall>p. \<not> fs_denied easy_training p) \<and> (\<forall>p. fs_write easy_training p = Written) \<and>
   split_data easy_training [flat_hand, flat_hand] [3, 3] =
     Inr \<lparr>X_train = [flat_hand, flat_hand], X_test = [flat_hand, flat_hand],
          y_train = [3, 3], y_test = [3, 3]\<rparr> \<and>
   forest_fit easy_training
     \<lparr>X_train = [flat_hand, flat_hand], X_test = [flat_hand, flat_hand],
      y_train = [3, 3], y_test = [3, 3]\<rparr> = Inr (const_rf 3 [0, 0, 0, 1, 0], 1) \<and>
   network_fit easy_training 63 5
     \<lparr>X_train = [flat_hand, flat_hand], X_test = [flat_hand, flat_hand],
      y_train = [3, 3], y_test = [3, 3]\<rparr> = Inr (const_tf [0, 0, 0, 1, 0], 1) \<and>
   fst (fst (run_training easy_training (\<lambda>p. None) (hello_session 2) False None)) \<and>
   fst (run_training easy_training (\<lambda>p. None) (hello_session 2) False None) = (True, 1)"
proof -
  have m: "''Hello'' \<in> set ORIGINAL_LABELS" by (simp add: ORIGINAL_LABELS_def)
  have f: "training_features (hello_session 2) ''Hello'' = Some [flat_hand, flat_hand]"
    by (simp add: hello_session_state eval_nat_numeral)
  have ne: "[flat_hand, flat_hand] \<noteq> []" by simp
  have e: "\<forall>p. \<not> fs_denied easy_training p" "\<forall>p. fs_write easy_training p = Written"
    "split_data easy_training [flat_hand, flat_hand] [3, 3] =
       Inr \<lparr>X_train = [flat_hand, flat_hand], X_test = [flat_hand, flat_hand],
            y_train = [3, 3], y_test = [3, 3]\<rparr>"
    "forest_fit easy_training
       \<lparr>X_train = [flat_hand, flat_hand], X_test = [flat_hand, flat_hand],
        y_train = [3, 3], y_test = [3, 3]\<rparr> = Inr (const_rf 3 [0, 0, 0, 1, 0], 1)"
    "network_fit easy_training 63 5
       \<lparr>X_train = [flat_hand, flat_hand], X_test = [flat_hand, flat_hand],
        y_train = [3, 3], y_test = [3, 3]\<rparr> = Inr (const_tf [0, 0, 0, 1, 0], 1)"
    by (simp_all add: easy_training_def split_data_def)
  have l: "length (hd [flat_hand, flat_hand]) = 63" "length ORIGINAL_LABELS = 5"
    by (simp_all add: flat_hand_def ORIGINAL_LABELS_def)
  show ?thesis
    using m f e l
      run_training_single_gesture [OF m f ne, of easy_training "\<lambda>p. None" None
        "\<lparr>X_train = [flat_hand, flat_hand], X_test = [flat_hand, flat_hand],
          y_train = [3, 3], y_test = [3, 3]\<rparr>"
        "const_rf 3 [0, 0, 0, 1, 0]" 1 "const_tf [0, 0, 0, 1, 0]" 1]
    by (simp add: hello_session_samples)
qed

section \<open>Properties of the training endpoints\<close>

lemma regular_session_samples:
  "collect_samples regular_session ORIGINAL_LABELS = ([], [])"
  by (simp add: collect_samples_def collect_gesture_def ORIGINAL_LABELS_def
      regular_session_def start_training_session_features start_training_session_labels
      start_training_session_gestures admin_lesson_def Let_def)

lemma run_training_no_samples:
  "fst (collect_samples c (run_gestures is_admin_level lesson_id)) = [] \<Longrightarrow>
   run_training env d c is_admin_level lesson_id = ((False, 0), d, c)"
  by (simp add: run_training_def Let_def)

lemma idle_server_model:
  "srv_asl_model idle_server = loaded_asl"
  by (simp add: idle_server_def asl_model_init_def load_model_def default_disk_def loaded_asl_def)

lemma idle_server_collector:
  "srv_training_collector idle_server = regular_session"
  by (simp add: idle_server_def)

lemma predict_loaded_asl: "predict loaded_asl flat_hand = Inr (''No'', 0.9)"
  by (simp add: predict_def loaded_asl_def model_predict_try_def and_then_def const_tf_def
      ORIGINAL_LABELS_def)

lemma predict_cleared:
  "predict (a\<lparr>model := None, model_loaded := False\<rparr>) feats = rule_based_prediction feats"
  by (simp add: predict_def)

text \<open>
  What a training run does to the disk: a removal or a write touches the one directory
  it names, cleaning empties both model files of the default artifact, and every later
  step of a regular run leaves there only what the run itself wrote.
\<close>

lemma remove_rf_other: "p \<noteq> dir \<Longrightarrow> remove_rf env dir target d p = d p"
  by (simp add: remove_rf_def split: option.splits entry.splits)

lemma remove_tf_other: "p \<noteq> dir \<Longrightarrow> remove_tf env dir target d p = d p"
  by (simp add: remove_tf_def split: option.splits entry.splits)

lemma os_makedirs_present:
  "d p = Some a \<Longrightarrow> snd (os_makedirs env q d) p = Some a"
  by (auto simp: os_makedirs_def split: option.splits)

lemma remove_rf_at:
  "d dir = Some a \<Longrightarrow> \<not> fs_denied env target \<Longrightarrow>
   \<exists>a'. remove_rf env dir target d dir = Some a' \<and> rf_pkl a' = Missing \<and>
        tf_dir a' = tf_dir a \<and> meta_json a' = meta_json a"
  by (cases "rf_pkl a") (simp_all add: remove_rf_def)

lemma remove_tf_at:
  "d dir = Some a \<Longrightarrow> \<not> fs_denied env target \<Longrightarrow>
   \<exists>a'. remove_tf env dir target d dir = Some a' \<and> tf_dir a' = Missing \<and>
        rf_pkl a' = rf_pkl a \<and> meta_json a' = meta_json a"
  by (cases "tf_dir a") (simp_all add: remove_tf_def)

lemma clean_old_models_models:
  assumes "\<not> fs_denied env ''models/asl_model_tf''" and "\<not> fs_denied env ''models/asl_model.pkl''"
    and "d ''models'' = Some a"
  shows "\<exists>a'. snd (clean_old_models env d) ''models'' = Some a' \<and>
              tf_dir a' = Missing \<and> rf_pkl a' = Missing \<and> meta_json a' = meta_json a"
proof -
  let ?d1 = "remove_rf env ''models'' ''models/asl_model.pkl'' d"
  let ?d2 = "remove_tf env ''models'' ''models/asl_model_tf'' ?d1"
  obtain a1 where a1: "?d1 ''models'' = Some a1" "rf_pkl a1 = Missing" "meta_json a1 = meta_json a"
    using remove_rf_at [of d "''models''" a env "''models/asl_model.pkl''"] assms by blast
  obtain a2 where a2: "?d2 ''models'' = Some a2" "tf_dir a2 = Missing" "rf_pkl a2 = Missing"
    "meta_json a2 = meta_json a"
    using remove_tf_at [of ?d1 "''models''" a1 env "''models/asl_model_tf''"] assms a1 by auto
  have "remove_rf env ''.'' ''asl_model.pkl'' (remove_tf env ''.'' ''asl_model_tf'' ?d2) ''models''
      = Some a2"
    by (simp add: remove_rf_other remove_tf_other a2)
  then have "snd (clean_old_models env d) ''models'' = Some a2"
    by (simp add: clean_old_models_def os_makedirs_present)
  with a2 show ?thesis by blast
qed

lemma write_rf_output:
  assumes "d ''models'' = Some a" and "run_output env a" and "forest_fit env sp = Inr (r, ra)"
  shows "\<exists>a'. snd (write_rf env ''models'' r d) ''models'' = Some a' \<and> run_output env a'"
  using assms
  by (cases "fs_write env (os_path_join ''models'' ''asl_model.pkl'')")
    (auto simp: write_rf_def run_output_def)

lemma write_tf_output:
  assumes "d ''models'' = Some a" and "run_output env a" and "network_fit env w n sp = Inr (t, ta)"
  shows "\<exists>a'. snd (write_tf env ''models'' t d) ''models'' = Some a' \<and> run_output env a'"
  using assms
  by (cases "fs_write env (os_path_join ''models'' ''asl_model_tf'')")
    (auto simp: write_tf_def run_output_def)

lemma write_metadata_output:
  assumes "d ''models'' = Some a" and "run_output env a"
  shows "\<exists>a'. snd (write_metadata env ''models'' md d) ''models'' = Some a' \<and> run_output env a'"
  using assms
  by (cases "fs_write env (os_path_join ''models'' ''training_metadata.json'')")
    (auto simp: write_metadata_def run_output_def)

lemma cleanup_duplicates_models: "cleanup_duplicates env d ''models'' = d ''models''"
  by (simp add: cleanup_duplicates_def remove_rf_other remove_tf_other)


lemma then_io_keeps:
  assumes "P (snd r)" and "\<And>v d'. P d' \<Longrightarrow> P (snd (f v d'))"
  shows "P (snd (then_io r f))"
proof (cases r)
  case (Pair res d0)
  with assms show ?thesis
    by (cases res) (simp_all add: then_io_def)
qed

lemma then_io_keeps_value:
  assumes "P (snd r)" and "\<And>v d'. fst r = Inr v \<Longrightarrow> P d' \<Longrightarrow> P (snd (f v d'))"
  shows "P (snd (then_io r f))"
proof (cases r)
  case (Pair res d0)
  with assms show ?thesis
    by (cases res) (simp_all add: then_io_def)
qed

lemma os_makedirs_other: "p \<noteq> q \<Longrightarrow> snd (os_makedirs env q d) p = d p"
  by (simp add: os_makedirs_def split: option.splits)

lemma write_rf_other: "p \<noteq> dir \<Longrightarrow> snd (write_rf env dir m d) p = d p"
  by (simp add: write_rf_def split: option.splits io_result.splits)

lemma write_tf_other: "p \<noteq> dir \<Longrightarrow> snd (write_tf env dir m d) p = d p"
  by (simp add: write_tf_def split: option.splits io_result.splits)

lemma write_metadata_other: "p \<noteq> dir \<Longrightarrow> snd (write_metadata env dir md d) p = d p"
  by (simp add: write_metadata_def split: option.splits io_result.splits)

lemma train_steps_admin_other:
  assumes "admin_lesson is_admin_level lesson_id = Some l" and "p \<noteq> ''level_models/'' @ l"
  shows "snd (train_steps env d c is_admin_level lesson_id X y) p = d p"
proof -
  have adm: "is_admin_level"
    using assms(1) by (simp add: admin_lesson_def split: if_splits)
  let ?P = "\<lambda>d'. d' p = d p"
  have prep: "?P (snd (then_io (os_makedirs env (''level_models/'' @ l) d)
                 (\<lambda>u d1. (Inr (''level_models/'' @ l), d1))))"
    "fst (then_io (os_makedirs env (''level_models/'' @ l) d)
                 (\<lambda>u d1. (Inr (''level_models/'' @ l), d1))) = Inr v \<Longrightarrow> v = ''level_models/'' @ l" for v
    using assms(2) by (auto simp: then_io_def os_makedirs_def split: option.splits if_splits)
  show ?thesis
    unfolding train_steps_def Let_def assms(1) option.case
    apply (rule then_io_keeps_value [where P = ?P])
     apply (rule prep(1))
    apply (drule prep(2))
    apply (rule then_io_keeps [where P = ?P], simp)
    apply (rule then_io_keeps [where P = ?P], simp)
    apply (rule then_io_keeps [where P = ?P], simp add: write_rf_other assms(2) [simplified])
    apply (rule then_io_keeps [where P = ?P], simp)
    apply (rule then_io_keeps [where P = ?P], simp add: write_tf_other assms(2) [simplified])
    apply (rule then_io_keeps [where P = ?P], simp add: write_metadata_other assms(2) [simplified])
    apply (simp add: adm)
    done
qed

lemma run_training_admin_other:
  assumes "l \<noteq> []" and "p \<noteq> ''level_models/'' @ l"
  shows "fst (snd (run_training env d c True (Some l))) p = d p"
proof -
  have a: "admin_lesson True (Some l) = Some l"
    using assms(1) by (simp add: admin_lesson_def)
  let ?X = "fst (collect_samples c (run_gestures True (Some l)))"
  let ?y = "snd (collect_samples c (run_gestures True (Some l)))"
  have t: "snd (train_steps env d c True (Some l) ?X ?y) p = d p"
    using a assms(2) by (rule train_steps_admin_other)
  show ?thesis
  proof (cases "train_steps env d c True (Some l) ?X ?y")
    case (Pair res d')
    with t show ?thesis
      by (cases res) (simp_all add: run_training_def Let_def)
  qed
qed

lemma complete_admin_level_training_models:
  "fst (snd (complete_admin_level_training env d srv session_id lesson_id)) ''models'' = d ''models''"
proof (cases session_id)
  case None
  then show ?thesis by (simp add: complete_admin_level_training_def)
next
  case (Some sid)
  show ?thesis
  proof (cases lesson_id)
    case None
    with Some show ?thesis by (simp add: complete_admin_level_training_def)
  next
    case (Some l)
    have "l \<noteq> [] \<Longrightarrow>
        fst (snd (run_training env d (srv_training_collector srv) True (Some l))) ''models'' =
          d ''models''"
      by (rule run_training_admin_other) simp_all
    with Some \<open>session_id = Some sid\<close> show ?thesis
      by (auto simp: complete_admin_level_training_def split: prod.splits)
  qed
qed

lemma train_steps_regular_models:
  assumes "\<not> fs_denied env ''models/asl_model_tf''" and "\<not> fs_denied env ''models/asl_model.pkl''"
    and "d ''models'' = Some a"
  shows "models_renewed env (snd (train_steps env d c False lesson_id X y))"
proof -
  let ?P = "models_renewed env"
  have none: "admin_lesson False lesson_id = None" by (simp add: admin_lesson_def)
  have cl: "?P (snd (clean_old_models env d))"
    using clean_old_models_models [of env d a] assms
    by (auto simp: models_renewed_def run_output_def)
  have mk: "?P d' \<Longrightarrow> ?P (snd (os_makedirs env ''models'' d'))" for d'
    by (auto simp: models_renewed_def os_makedirs_present)
  have prep: "?P (snd (then_io (clean_old_models env d) (\<lambda>u d1.
                   then_io (os_makedirs env ''models'' d1) (\<lambda>u d2. (Inr ''models'', d2)))))"
    by (rule then_io_keeps [where P = ?P], rule cl)
      (rule then_io_keeps [where P = ?P], erule mk, simp)
  have out: "fst (then_io (clean_old_models env d) (\<lambda>u d1.
                   then_io (os_makedirs env ''models'' d1) (\<lambda>u d2. (Inr ''models'', d2)))) = Inr v
               \<Longrightarrow> v = ''models''" for v
    by (auto simp: then_io_def split: prod.splits sum.splits)
  show ?thesis
    unfolding train_steps_def Let_def none option.case
    apply (rule then_io_keeps_value [where P = ?P])
     apply (rule prep)
    apply (drule out)
    apply (rule then_io_keeps [where P = ?P], simp)
    apply (rule then_io_keeps_value [where P = ?P], simp)
    apply (rule then_io_keeps [where P = ?P])
    subgoal for v d' v2 d2 v3 d3
      using write_rf_output [of d3 _ env v2 "fst v3" "snd v3"]
      by (auto simp: models_renewed_def)
    apply (rule then_io_keeps_value [where P = ?P], simp)
    apply (rule then_io_keeps [where P = ?P])
    subgoal for v d' v2 d2 v3 d3 v4 d4 v5 d5
      using write_tf_output [of d5 _ env _ _ v2 "fst v5" "snd v5"]
      by (auto simp: models_renewed_def)
    apply (rule then_io_keeps [where P = ?P])
    subgoal for v d' v2 d2 v3 d3 v4 d4 v5 d5 v6 d6
      using write_metadata_output [of d6 _ env]
      by (auto simp: models_renewed_def)
    apply (simp add: models_renewed_def cleanup_duplicates_models)
    done
qed

lemma run_training_regular_models:
  assumes "fst (collect_samples c ORIGINAL_LABELS) \<noteq> []"
    and "\<not> fs_denied env ''models/asl_model_tf''" and "\<not> fs_denied env ''models/asl_model.pkl''"
    and "d ''models'' = Some a"
  shows "models_renewed env (fst (snd (run_training env d c False lesson_id)))"
proof -
  let ?X = "fst (collect_samples c ORIGINAL_LABELS)"
  let ?y = "snd (collect_samples c ORIGINAL_LABELS)"
  have t: "models_renewed env (snd (train_steps env d c False lesson_id ?X ?y))"
    using assms(2-4) by (rule train_steps_regular_models)
  show ?thesis
  proof (cases "train_steps env d c False lesson_id ?X ?y")
    case (Pair res d')
    with t assms(1) show ?thesis
      by (cases res) (simp_all add: run_training_def run_gestures_regular Let_def)
  qed
qed

lemma collecting_server_fields:
  "srv_asl_model collecting_server = loaded_asl"
  "srv_training_collector collecting_server = hello_session 2"
  by (simp_all add: collecting_server_def asl_model_init_def load_model_def default_disk_def
      loaded_asl_def)

lemma split_failing_run:
  "run_training split_failing_training default_disk (hello_session 2) False None =
     ((False, 0),
      default_disk(''models'' \<mapsto> \<lparr>meta_json = Missing, tf_dir = Missing, rf_pkl = Missing\<rparr>),
      hello_session 2)"
  by (simp add: run_training_def run_gestures_regular hello_session_samples Let_def
      train_steps_def admin_lesson_def then_io_def clean_old_models_def os_makedirs_def
      remove_rf_def remove_tf_def split_data_def split_failing_training_def easy_training_def
      default_disk_def)

text \<open>
  C1, the claim as stated fails. The server has loaded a trained default network from
  \<^verbatim>\<open>models/asl_model_tf\<close>, the session holds two samples, and the data split of the run
  raises. \<^verbatim>\<open>complete_training\<close> reports the failure; the run has already deleted the
  network file of the default artifact, and both fields of the default model in memory
  are cleared: the frame that the loaded network classified as \<open>No\<close> is now answered by
  the finger rules.
\<close>

theorem complete_training_loses_model:
  "default_disk ''models'' =
     Some \<lparr>meta_json = Missing, tf_dir = Holds (const_tf [0.1, 0.9, 0, 0, 0]), rf_pkl = Missing\<rparr> \<and>
   predict (srv_asl_model collecting_server) flat_hand = Inr (''No'', 0.9) \<and>
   fst (complete_training split_failing_training default_disk collecting_server (Some ''s1'')) =
     Reply_error ''Training failed'' 500 \<and>
   fst (snd (complete_training split_failing_training default_disk collecting_server (Some ''s1'')))
     ''models'' = Some \<lparr>meta_json = Missing, tf_dir = Missing, rf_pkl = Missing\<rparr> \<and>
   srv_asl_model
     (snd (snd (complete_training split_failing_training default_disk collecting_server (Some ''s1'')))) =
     \<lparr>model = None, model_loaded = False\<rparr> \<and>
   predict (srv_asl_model
     (snd (snd (complete_training split_failing_training default_disk collecting_server (Some ''s1'')))))
     flat_hand = Inr (''Thank You'', 0.6)"
proof -
  have c: "complete_training split_failing_training default_disk collecting_server (Some ''s1'') =
      (Reply_error ''Training failed'' 500,
       default_disk(''models'' \<mapsto> \<lparr>meta_json = Missing, tf_dir = Missing, rf_pkl = Missing\<rparr>),
       collecting_server\<lparr>srv_asl_model := loaded_asl\<lparr>model := None, model_loaded := False\<rparr>,
                          srv_training_collector := hello_session 2\<rparr>)"
    by (simp add: complete_training_def collecting_server_fields split_failing_run)
  have m: "loaded_asl\<lparr>model := None, model_loaded := False\<rparr> =
      \<lparr>model = None, model_loaded = False\<rparr>"
    by (simp add: loaded_asl_def)
  have p: "predict \<lparr>model = None, model_loaded = False\<rparr> flat_hand = Inr (''Thank You'', 0.6)"
    by (simp add: predict_def rb_flat)
  have d: "default_disk ''models'' =
      Some \<lparr>meta_json = Missing, tf_dir = Holds (const_tf [0.1, 0.9, 0, 0, 0]), rf_pkl = Missing\<rparr>"
    by (simp add: default_disk_def)
  show ?thesis
    by (simp add: c d collecting_server_fields predict_loaded_asl m p)
qed

text \<open>
  C1, amended. When a regular training run fails, \<^verbatim>\<open>complete_training\<close> clears the
  default model in memory (no model, flag down), so the next default-mode prediction is
  that of the finger rules. \<^verbatim>\<open>complete_admin_level_training\<close> touches neither the default
  model in memory nor the directory of the default artifact on disk, whether its run
  fails or not. A run that fails because no sample was collected leaves the disk and the
  sample buffers as they were. A regular run that has samples deletes the old model
  files of the default artifact before its first step that can fail (unless the file
  system refuses the removal): whether or not the run then fails, each model file of the
  default artifact is afterwards missing, unfinished, or the model this run fitted.
\<close>

theorem failed_training_effects:
  "(truthy session_id \<and> \<not> fst (fst (run_training env d (srv_training_collector srv) False None))
      \<longrightarrow> srv_asl_model (snd (snd (complete_training env d srv session_id))) =
             (srv_asl_model srv)\<lparr>model := None, model_loaded := False\<rparr> \<and>
           predict (srv_asl_model (snd (snd (complete_training env d srv session_id)))) feats =
             rule_based_prediction feats) \<and>
   srv_asl_model (snd (snd (complete_admin_level_training env d srv session_id lesson_id))) =
     srv_asl_model srv \<and>
   fst (snd (complete_admin_level_training env d srv session_id lesson_id)) ''models'' =
     d ''models'' \<and>
   (fst (collect_samples c (run_gestures is_admin_level lesson_id)) = []
      \<longrightarrow> run_training env d c is_admin_level lesson_id = ((False, 0), d, c)) \<and>
   (fst (collect_samples c ORIGINAL_LABELS) \<noteq> [] \<and>
    \<not> fs_denied env ''models/asl_model_tf'' \<and> \<not> fs_denied env ''models/asl_model.pkl'' \<and>
    d ''models'' = Some a
      \<longrightarrow> models_renewed env (fst (snd (run_training env d c False lesson_id))))"
proof (intro conjI impI)
  assume h: "truthy session_id \<and>
    \<not> fst (fst (run_training env d (srv_training_collector srv) False None))"
  then show m: "srv_asl_model (snd (snd (complete_training env d srv session_id))) =
      (srv_asl_model srv)\<lparr>model := None, model_loaded := False\<rparr>"
    by (cases "run_training env d (srv_training_collector srv) False None")
      (auto simp: complete_training_def)
  show "predict (srv_asl_model (snd (snd (complete_training env d srv session_id)))) feats =
      rule_based_prediction feats"
    by (simp add: m predict_cleared)
next
  show "srv_asl_model (snd (snd (complete_admin_level_training env d srv session_id lesson_id))) =
      srv_asl_model srv"
    by (cases session_id; cases lesson_id)
      (auto simp: complete_admin_level_training_def split: prod.splits)
next
  show "fst (snd (complete_admin_level_training env d srv session_id lesson_id)) ''models'' =
      d ''models''"
    by (rule complete_admin_level_training_models)
next
  assume "fst (collect_samples c (run_gestures is_admin_level lesson_id)) = []"
  then show "run_training env d c is_admin_level lesson_id = ((False, 0), d, c)"
    by (rule run_training_no_samples)
next
  assume "fst (collect_samples c ORIGINAL_LABELS) \<noteq> [] \<and>
    \<not> fs_denied env ''models/asl_model_tf'' \<and> \<not> fs_denied env ''models/asl_model.pkl'' \<and>
    d ''models'' = Some a"
  then show "models_renewed env (fst (snd (run_training env d c False lesson_id)))"
    using run_training_regular_models [of c env d a lesson_id] by blast
qed

theorem failed_training_effects_witness:
  "truthy (Some ''s1'') \<and>
   \<not> fst (fst (run_training easy_training default_disk (srv_training_collector idle_server) False None)) \<and>
   srv_asl_model (snd (snd (complete_training easy_training default_disk idle_server (Some ''s1'')))) =
     loaded_asl\<lparr>model := None, model_loaded := False\<rparr> \<and>
   predict (srv_asl_model
     (snd (snd (complete_training easy_training default_disk idle_server (Some ''s1'')))))
     flat_hand = Inr (''Thank You'', 0.6) \<and>
   srv_asl_model (snd (snd (complete_admin_level_training easy_training default_disk idle_server
     (Some ''admin_level_1'') (Some ''lesson_2'')))) = loaded_asl \<and>
   fst (snd (complete_admin_level_training easy_training default_disk idle_server
     (Some ''admin_level_1'') (Some ''lesson_2''))) ''models'' = default_disk ''models'' \<and>
   fst (collect_samples regular_session (run_gestures False None)) = [] \<and>
   run_training easy_training default_disk regular_session False None =
     ((False, 0), default_disk, regular_session) \<and>
   fst (collect_samples (hello_session 2) ORIGINAL_LABELS) \<noteq> [] \<and>
   \<not> fs_denied split_failing_training ''models/asl_model_tf'' \<and>
   \<not> fs_denied split_failing_training ''models/asl_model.pkl'' \<and>
   default_disk ''models'' =
     Some \<lparr>meta_json = Missing, tf_dir = Holds (const_tf [0.1, 0.9, 0, 0, 0]), rf_pkl = Missing\<rparr> \<and>
   \<not> fst (fst (run_training split_failing_training default_disk (hello_session 2) False None)) \<and>
   models_renewed split_failing_training
     (fst (snd (run_training split_failing_training default_disk (hello_session 2) False None)))"
proof -
  have e: "fst (collect_samples regular_session (run_gestures False None)) = []"
    by (simp add: run_gestures_regular regular_session_samples)
  have r: "\<not> fst (fst (run_training easy_training default_disk
      (srv_training_collector idle_server) False None))"
    by (simp add: idle_server_collector run_training_no_samples [OF e])
  have s: "fst (collect_samples (hello_session 2) ORIGINAL_LABELS) \<noteq> []"
    "\<not> fs_denied split_failing_training ''models/asl_model_tf''"
    "\<not> fs_denied split_failing_training ''models/asl_model.pkl''"
    "default_disk ''models'' =
       Some \<lparr>meta_json = Missing, tf_dir = Holds (const_tf [0.1, 0.9, 0, 0, 0]), rf_pkl = Missing\<rparr>"
    by (simp_all add: hello_session_samples split_failing_training_def easy_training_def
        default_disk_def)
  have f: "\<not> fst (fst (run_training split_failing_training default_disk (hello_session 2) False None))"
    by (simp add: split_failing_run)
  have first: "srv_asl_model (snd (snd (complete_training easy_training default_disk idle_server (Some ''s1'')))) =
     loaded_asl\<lparr>model := None, model_loaded := False\<rparr> \<and>
     predict (srv_asl_model
       (snd (snd (complete_training easy_training default_disk idle_server (Some ''s1'')))))
       flat_hand = Inr (''Thank You'', 0.6) \<and>
     run_training easy_training default_disk regular_session False None =
       ((False, 0), default_disk, regular_session)"
    using e r rb_flat idle_server_model
      failed_training_effects [where session_id = "Some ''s1''" and env = easy_training
        and d = default_disk and srv = idle_server and feats = flat_hand
        and lesson_id = None and c = regular_session and is_admin_level = False]
    by (simp add: run_gestures_regular regular_session_samples idle_server_collector
        predict_cleared)
  have second: "srv_asl_model (snd (snd (complete_admin_level_training easy_training default_disk
       idle_server (Some ''admin_level_1'') (Some ''lesson_2'')))) = loaded_asl \<and>
     fst (snd (complete_admin_level_training easy_training default_disk idle_server
       (Some ''admin_level_1'') (Some ''lesson_2''))) ''models'' = default_disk ''models''"
    using idle_server_model
      failed_training_effects [where session_id = "Some ''admin_level_1''" and env = easy_training
        and d = default_disk and srv = idle_server and lesson_id = "Some ''lesson_2''"]
    by simp
  have third: "models_renewed split_failing_training
      (fst (snd (run_training split_failing_training default_disk (hello_session 2) False None)))"
    using s
      failed_training_effects [where env = split_failing_training and d = default_disk
        and c = "hello_session 2" and lesson_id = None
        and a = "\<lparr>meta_json = Missing, tf_dir = Holds (const_tf [0.1, 0.9, 0, 0, 0]),
                   rf_pkl = Missing\<rparr>"]
    by blast
  have t: "truthy (Some ''s1'')" by simp
  show ?thesis
    using t e r s f first second third by blast
qed

end
